theory Spec2Isabelle
  imports Complex_Main
begin

section \<open>Taiwan AQI monitor: the values the program handles\<close>

text \<open>
  The program (\<^verbatim>\<open>src/main.py\<close>, class \<^verbatim>\<open>AQIMonitor\<close>) fetches station records
  as JSON, tabulates them, attaches coordinates, renders a map and writes two files.
  Python values that come out of \<^verbatim>\<open>response.json()\<close> are modelled by \<open>json\<close>.
  Numbers (Python \<^verbatim>\<open>int\<close> and finite \<^verbatim>\<open>float\<close>) are embedded in \<open>real\<close>:
  the program only compares them with the constants 50 and 100 and forms
  \<^verbatim>\<open>8 + v / 50\<close>, and the comparisons are exact on floats. A parsed JSON object is
  a Python \<^verbatim>\<open>dict\<close>; it is written as the list of its items in insertion order.
  Strings are byte strings: text outside ASCII (the station names, the level labels)
  is written as its UTF-8 bytes, which keeps equality and the substring test on an
  ASCII pattern as they are on code points.
\<close>

datatype json =
    JNull
  | JBool bool
  | JNum real
  | JStr string
  | JArr "json list"
  | JObj "(string \<times> json) list"

text \<open>The exception classes the modelled code can raise.\<close>

datatype py_error =
    KeyError
  | TypeError
  | ValueError
  | AttributeError
  | RequestException
  | JSONDecodeError
  | OSError

section \<open>The classifier: \<^verbatim>\<open>get_aqi_color\<close> and \<^verbatim>\<open>get_aqi_level\<close>\<close>

definition level_good :: string where
  "level_good = [CHR 0xE8, CHR 0x89, CHR 0xAF, CHR 0xE5, CHR 0xA5, CHR 0xBD]"

definition level_moderate :: string where
  "level_moderate = [CHR 0xE4, CHR 0xB8, CHR 0xAD, CHR 0xE7, CHR 0xAD, CHR 0x89]"

definition level_unhealthy :: string where
  "level_unhealthy =
     [CHR 0xE4, CHR 0xB8, CHR 0x8D, CHR 0xE5, CHR 0x81, CHR 0xA5, CHR 0xE5, CHR 0xBA, CHR 0xB7]"

definition get_aqi_color :: "real \<Rightarrow> string" where
  "get_aqi_color aqi_value =
     (if aqi_value \<le> 50 then ''#00E400''
      else if aqi_value \<le> 100 then ''#FFFF00''
      else ''#FF0000'')"

definition get_aqi_level :: "real \<Rightarrow> string" where
  "get_aqi_level aqi_value =
     (if aqi_value \<le> 50 then level_good
      else if aqi_value \<le> 100 then level_moderate
      else level_unhealthy)"

text \<open>
  The specification's three-tier band, written from its words
  (Good if value \<open>\<le>\<close> 50, Moderate if value \<open>\<le>\<close> 100, Unhealthy otherwise), with the
  fixed colour and label of each band and the bands' order of severity.
\<close>

datatype band = Good | Moderate | Unhealthy

definition spec_AQIBand :: "real \<Rightarrow> band" where
  "spec_AQIBand v = (if v \<le> 50 then Good else if v \<le> 100 then Moderate else Unhealthy)"

fun band_color :: "band \<Rightarrow> string" where
  "band_color Good = ''#00E400''"
| "band_color Moderate = ''#FFFF00''"
| "band_color Unhealthy = ''#FF0000''"

fun band_label :: "band \<Rightarrow> string" where
  "band_label Good = level_good"
| "band_label Moderate = level_moderate"
| "band_label Unhealthy = level_unhealthy"

fun band_rank :: "band \<Rightarrow> nat" where
  "band_rank Good = 0"
| "band_rank Moderate = 1"
| "band_rank Unhealthy = 2"

section \<open>The constants of \<^verbatim>\<open>__init__\<close>\<close>

definition taipei_station :: "real \<times> real" where
  "taipei_station = (25.0478, 121.5170)"

text \<open>
  \<^verbatim>\<open>self.station_coordinates\<close>: the dict literal, in source order. Its 55 keys are
  distinct (lemma \<open>station_names_distinct\<close>), so looking a name up in the list is looking
  it up in the dict.
\<close>

definition station_coordinates :: "(string \<times> real \<times> real) list" where
  "station_coordinates = [
    ([CHR 0xE6, CHR 0xB1, CHR 0x90, CHR 0xE6, CHR 0xAD, CHR 0xA2], 25.0645, 121.6321),
    ([CHR 0xE4, CHR 0xB8, CHR 0xAD, CHR 0xE5, CHR 0xB1, CHR 0xB1], 25.0645, 121.5241),
    ([CHR 0xE5, CHR 0xA4, CHR 0xA7, CHR 0xE5, CHR 0xAE, CHR 0x89], 25.0263, 121.5438),
    ([CHR 0xE5, CHR 0x8F, CHR 0xA4, CHR 0xE4, CHR 0xBA, CHR 0xAD], 25.0128, 121.5274),
    ([CHR 0xE6, CHR 0x9D, CHR 0xBE, CHR 0xE5, CHR 0xB1, CHR 0xB1], 25.0477, 121.5750),
    ([CHR 0xE5, CHR 0xA3, CHR 0xAB, CHR 0xE6, CHR 0x9E, CHR 0x97], 25.0877, 121.5240),
    ([CHR 0xE5, CHR 0xA4, CHR 0xA7, CHR 0xE5, CHR 0x90, CHR 0x8C], 25.0645, 121.5178),
    ([CHR 0xE5, CHR 0x85, CHR 0xA7, CHR 0xE6, CHR 0xB9, CHR 0x96], 25.0698, 121.5808),
    ([CHR 0xE5, CHR 0x8D, CHR 0x97, CHR 0xE6, CHR 0xB8, CHR 0xAF], 25.0548, 121.6069),
    ([CHR 0xE6, CHR 0x96, CHR 0x87, CHR 0xE5, CHR 0xB1, CHR 0xB1], 24.9876, 121.5718),
    ([CHR 0xE6, CHR 0x9D, CHR 0xBF, CHR 0xE6, CHR 0xA9, CHR 0x8B], 25.0167, 121.4624),
    ([CHR 0xE6, CHR 0x96, CHR 0xB0, CHR 0xE8, CHR 0x8E, CHR 0x8A], 25.0358, 121.4497),
    ([CHR 0xE5, CHR 0x9C, CHR 0x9F, CHR 0xE5, CHR 0x9F, CHR 0x8E], 24.9791, 121.4599),
    ([CHR 0xE8, CHR 0x98, CHR 0x86, CHR 0xE6, CHR 0xB4, CHR 0xB2], 25.0848, 121.4660),
    ([CHR 0xE4, CHR 0xB8, CHR 0x89, CHR 0xE9, CHR 0x87, CHR 0x8D], 25.0829, 121.4914),
    ([CHR 0xE6, CHR 0xB7, CHR 0xA1, CHR 0xE6, CHR 0xB0, CHR 0xB4], 25.1646, 121.4459),
    ([CHR 0xE6, CHR 0x9E, CHR 0x97, CHR 0xE5, CHR 0x8F, CHR 0xA3], 25.0789, 121.3198),
    ([CHR 0xE6, CHR 0xA1, CHR 0x83, CHR 0xE5, CHR 0x9C, CHR 0x92], 24.9936, 121.3010),
    ([CHR 0xE4, CHR 0xB8, CHR 0xAD, CHR 0xE5, CHR 0xA3, CHR 0xA2], 24.9539, 121.2256),
    ([CHR 0xE5, CHR 0xB9, CHR 0xB3, CHR 0xE9, CHR 0x8E, CHR 0xAE], 24.9446, 121.2188),
    ([CHR 0xE9, CHR 0xBE, CHR 0x8D, CHR 0xE6, CHR 0xBD, CHR 0xAD], 24.8626, 121.2299),
    ([CHR 0xE6, CHR 0x96, CHR 0xB0, CHR 0xE7, CHR 0xAB, CHR 0xB9], 24.8138, 120.9675),
    ([CHR 0xE7, CHR 0xAB, CHR 0xB9, CHR 0xE6, CHR 0x9D, CHR 0xB1], 24.7446, 121.0865),
    ([CHR 0xE8, CHR 0x8B, CHR 0x97, CHR 0xE6, CHR 0xA0, CHR 0x97], 24.5629, 120.8214),
    ([CHR 0xE9, CHR 0xA0, CHR 0xAD, CHR 0xE4, CHR 0xBB, CHR 0xBD], 24.6876, 120.8806),
    ([CHR 0xE5, CHR 0x8F, CHR 0xB0, CHR 0xE4, CHR 0xB8, CHR 0xAD], 24.1477, 120.6736),
    ([CHR 0xE6, CHR 0xB2, CHR 0x99, CHR 0xE9, CHR 0xB9, CHR 0xBF], 24.2332, 120.5654),
    ([CHR 0xE8, CHR 0xB1, CHR 0x90, CHR 0xE5, CHR 0x8E, CHR 0x9F], 24.2525, 120.7176),
    ([CHR 0xE5, CHR 0xA4, CHR 0xA7, CHR 0xE9, CHR 0x87, CHR 0x8C], 24.0995, 120.6788),
    ([CHR 0xE5, CHR 0xBD, CHR 0xB0, CHR 0xE5, CHR 0x8C, CHR 0x96], 24.0766, 120.5422),
    ([CHR 0xE5, CHR 0x93, CHR 0xA1, CHR 0xE6, CHR 0x9E, CHR 0x97], 23.9623, 120.5744),
    ([CHR 0xE5, CHR 0x8D, CHR 0x97, CHR 0xE6, CHR 0x8A, CHR 0x95], 23.9099, 120.6838),
    ([CHR 0xE9, CHR 0x9B, CHR 0xB2, CHR 0xE6, CHR 0x9E, CHR 0x97], 23.7090, 120.4316),
    ([CHR 0xE6, CHR 0x96, CHR 0x97, CHR 0xE5, CHR 0x85, CHR 0xAD], 23.7089, 120.4316),
    ([CHR 0xE5, CHR 0x98, CHR 0x89, CHR 0xE7, CHR 0xBE, CHR 0xA9], 23.4801, 120.4491),
    ([CHR 0xE6, CHR 0x9C, CHR 0xB4, CHR 0xE5, CHR 0xAD, CHR 0x90], 23.4619, 120.2479),
    ([CHR 0xE5, CHR 0x8F, CHR 0xB0, CHR 0xE5, CHR 0x8D, CHR 0x97], 22.9999, 120.2269),
    ([CHR 0xE6, CHR 0x96, CHR 0xB0, CHR 0xE7, CHR 0x87, CHR 0x9F], 23.3005, 120.3169),
    ([CHR 0xE5, CHR 0x96, CHR 0x84, CHR 0xE5, CHR 0x8C, CHR 0x96], 23.1327, 120.2995),
    ([CHR 0xE9, CHR 0xAB, CHR 0x98, CHR 0xE9, CHR 0x9B, CHR 0x84], 22.6273, 120.3014),
    ([CHR 0xE6, CHR 0x9E, CHR 0x97, CHR 0xE5, CHR 0x9C, CHR 0x92], 22.5019, 120.3943),
    ([CHR 0xE5, CHR 0xA4, CHR 0xA7, CHR 0xE5, CHR 0xAF, CHR 0xAE], 22.5598, 120.3543),
    ([CHR 0xE9, CHR 0xB3, CHR 0xB3, CHR 0xE5, CHR 0xB1, CHR 0xB1], 22.6287, 120.3566),
    ([CHR 0xE5, CHR 0xB7, CHR 0xA6, CHR 0xE7, CHR 0x87, CHR 0x9F], 22.6900, 120.2982),
    ([CHR 0xE6, CHR 0xA5, CHR 0xA0, CHR 0xE6, CHR 0xA2, CHR 0x93], 22.7287, 120.3014),
    ([CHR 0xE5, CHR 0xB0, CHR 0x8F, CHR 0xE6, CHR 0xB8, CHR 0xAF], 22.5667, 120.3512),
    ([CHR 0xE5, CHR 0xB1, CHR 0x8F, CHR 0xE6, CHR 0x9D, CHR 0xB1], 22.6828, 120.4908),
    ([CHR 0xE6, CHR 0x81, CHR 0x86, CHR 0xE6, CHR 0x98, CHR 0xA5], 22.0011, 120.7460),
    ([CHR 0xE5, CHR 0xAE, CHR 0x9C, CHR 0xE8, CHR 0x98, CHR 0xAD], 24.6929, 121.7355),
    ([CHR 0xE7, CHR 0xBE, CHR 0x85, CHR 0xE6, CHR 0x9D, CHR 0xB1], 24.6770, 121.7707),
    ([CHR 0xE8, CHR 0x8A, CHR 0xB1, CHR 0xE8, CHR 0x93, CHR 0xAE], 23.9979, 121.6070),
    ([CHR 0xE5, CHR 0x8F, CHR 0xB0, CHR 0xE6, CHR 0x9D, CHR 0xB1], 22.7560, 121.1606),
    ([CHR 0xE9, CHR 0xA6, CHR 0xAC, CHR 0xE7, CHR 0xA5, CHR 0x96], 26.1634, 119.9518),
    ([CHR 0xE9, CHR 0x87, CHR 0x91, CHR 0xE9, CHR 0x96, CHR 0x80], 24.4368, 118.3168),
    ([CHR 0xE6, CHR 0xBE, CHR 0x8E, CHR 0xE6, CHR 0xB9, CHR 0x96], 23.5697, 119.5802)]"

definition station_lookup :: "string \<Rightarrow> (real \<times> real) option" where
  "station_lookup name = map_of station_coordinates name"

section \<open>Raising and handling\<close>

text \<open>
  A computation that may raise returns \<open>py_error + 'a\<close>: \<open>Inl e\<close> is the exception \<open>e\<close>
  propagating, \<open>Inr v\<close> is the value returned. \<open>bind_err\<close> sequences two steps as
  Python does (the second is skipped once the first has raised); \<open>try_except\<close> is a
  \<^verbatim>\<open>try\<close> block with one handler, which returns the handler's value for the
  exceptions it handles and lets the others pass; \<open>map_err\<close> applies a raising function
  to the elements of a sequence in order.
\<close>

definition bind_err :: "py_error + 'a \<Rightarrow> ('a \<Rightarrow> py_error + 'b) \<Rightarrow> py_error + 'b" where
  "bind_err m f = (case m of Inl e \<Rightarrow> Inl e | Inr x \<Rightarrow> f x)"

definition try_except ::
  "(py_error + 'a) \<Rightarrow> (py_error \<Rightarrow> bool) \<Rightarrow> (py_error \<Rightarrow> 'a) \<Rightarrow> py_error + 'a" where
  "try_except body handles handler =
     (case body of
        Inl e \<Rightarrow> if handles e then Inr (handler e) else Inl e
      | Inr v \<Rightarrow> Inr v)"

fun map_err :: "('a \<Rightarrow> py_error + 'b) \<Rightarrow> 'a list \<Rightarrow> py_error + 'b list" where
  "map_err f [] = Inr []"
| "map_err f (x # xs) =
     (case f x of
        Inl e \<Rightarrow> Inl e
      | Inr y \<Rightarrow> (case map_err f xs of Inl e \<Rightarrow> Inl e | Inr ys \<Rightarrow> Inr (y # ys)))"

section \<open>Data frames\<close>

text \<open>
  A pandas cell holds a Python object or the float \<^verbatim>\<open>nan\<close>. pandas counts
  \<^verbatim>\<open>None\<close> and \<^verbatim>\<open>nan\<close> as null (\<open>isna\<close>). A frame is its column labels, in order,
  and its rows, each row giving one cell per column label.
\<close>

datatype cell = NaN | Py json

type_synonym row = "(string \<times> cell) list"

record dataframe =
  columns :: "string list"
  rows :: "row list"

definition isna :: "cell \<Rightarrow> bool" where
  "isna c = (c = NaN \<or> c = Py JNull)"

text \<open>\<^verbatim>\<open>df.empty\<close>: an axis of the frame has length 0.\<close>

definition empty_df :: "dataframe \<Rightarrow> bool" where
  "empty_df df = (columns df = [] \<or> rows df = [])"

text \<open>
  What the program asks of its libraries and cannot be read off its own source:
  \<^item> \<open>frame_other\<close>: \<^verbatim>\<open>pd.DataFrame(d)\<close> for a \<open>d\<close> that is not a list of dicts;
  \<^item> \<open>to_number\<close>: the number \<^verbatim>\<open>pd.to_numeric\<close> reads a non-null, non-numeric
    object as, \<open>None\<close> when it cannot be parsed as a number;
  \<^item> \<open>geodesic_km\<close>: \<^verbatim>\<open>geodesic(a, b).kilometers\<close> of geopy, which may raise;
  \<^item> \<open>round2\<close>: Python's \<^verbatim>\<open>round(x, 2)\<close>.
  Every theorem below holds for all libraries.
\<close>

record libs =
  frame_other :: "json \<Rightarrow> py_error + dataframe"
  to_number :: "json \<Rightarrow> real option"
  geodesic_km :: "cell \<times> cell \<Rightarrow> real \<times> real \<Rightarrow> py_error + real"
  round2 :: "real \<Rightarrow> real"

fun is_dict :: "json \<Rightarrow> bool" where
  "is_dict (JObj kvs) = True"
| "is_dict j = False"

fun dict_items :: "json \<Rightarrow> (string \<times> json) list" where
  "dict_items (JObj kvs) = kvs"
| "dict_items j = []"

definition add_key :: "string list \<Rightarrow> string \<Rightarrow> string list" where
  "add_key acc k = (if k \<in> set acc then acc else acc @ [k])"

text \<open>The union of the dicts' keys, in order of first appearance.\<close>

definition union_keys :: "(string \<times> json) list list \<Rightarrow> string list" where
  "union_keys ds = foldl (\<lambda>acc kvs. foldl add_key acc (map fst kvs)) [] ds"

definition raw_cell :: "(string \<times> json) list \<Rightarrow> string \<Rightarrow> cell" where
  "raw_cell kvs c = (case map_of kvs c of None \<Rightarrow> NaN | Some v \<Rightarrow> Py v)"

definition row_of_dict :: "string list \<Rightarrow> (string \<times> json) list \<Rightarrow> row" where
  "row_of_dict cols kvs = map (\<lambda>c. (c, raw_cell kvs c)) cols"

text \<open>
  \<^verbatim>\<open>pd.DataFrame(d)\<close>. For a list of dicts the columns are the union of the keys and
  a key a record lacks gives \<^verbatim>\<open>nan\<close> in its row.
\<close>

definition DataFrame :: "libs \<Rightarrow> json \<Rightarrow> py_error + dataframe" where
  "DataFrame L d =
     (case d of
        JArr xs \<Rightarrow>
          if list_all is_dict xs
          then let cols = union_keys (map dict_items xs)
               in Inr \<lparr>columns = cols, rows = map (\<lambda>x. row_of_dict cols (dict_items x)) xs\<rparr>
          else frame_other L d
      | _ \<Rightarrow> frame_other L d)"

definition cell_at :: "row \<Rightarrow> string \<Rightarrow> cell" where
  "cell_at r c = (case map_of r c of None \<Rightarrow> NaN | Some v \<Rightarrow> v)"

text \<open>\<^verbatim>\<open>row[c]\<close> on a row of the frame: \<^verbatim>\<open>KeyError\<close> for a label the row lacks.\<close>

definition row_get :: "row \<Rightarrow> string \<Rightarrow> py_error + cell" where
  "row_get r c = (case map_of r c of None \<Rightarrow> Inl KeyError | Some v \<Rightarrow> Inr v)"

text \<open>\<^verbatim>\<open>df[c]\<close>: \<^verbatim>\<open>KeyError\<close> for a label that is not a column.\<close>

definition get_column :: "dataframe \<Rightarrow> string \<Rightarrow> py_error + cell list" where
  "get_column df c =
     (if c \<in> set (columns df) then Inr (map (\<lambda>r. cell_at r c) (rows df)) else Inl KeyError)"

text \<open>\<^verbatim>\<open>df[cols]\<close> for labels that are columns of the frame.\<close>

definition take_columns :: "string list \<Rightarrow> dataframe \<Rightarrow> dataframe" where
  "take_columns cols df =
     \<lparr>columns = cols, rows = map (\<lambda>r. map (\<lambda>c. (c, cell_at r c)) cols) (rows df)\<rparr>"

fun row_set :: "string \<Rightarrow> cell \<Rightarrow> row \<Rightarrow> row" where
  "row_set k v [] = [(k, v)]"
| "row_set k v ((k', v') # r) =
     (if k' = k then (k, v) # r else (k', v') # row_set k v r)"

text \<open>\<^verbatim>\<open>df[c] = vals\<close>: replaces the column, or appends it as the last one.\<close>

definition set_column :: "string \<Rightarrow> cell list \<Rightarrow> dataframe \<Rightarrow> dataframe" where
  "set_column c vals df =
     \<lparr>columns = add_key (columns df) c,
      rows = map (\<lambda>(r, v). row_set c v r) (zip (rows df) vals)\<rparr>"

text \<open>
  \<^verbatim>\<open>pd.to_numeric(column, errors=...)\<close>, cell by cell: null stays null, a number
  stays, anything else is read by the library; what it cannot read raises under
  \<^verbatim>\<open>errors='raise'\<close> and becomes \<^verbatim>\<open>nan\<close> under \<^verbatim>\<open>errors='coerce'\<close>.
\<close>

datatype errors_mode = ErrorsRaise | ErrorsCoerce

fun to_numeric_cell :: "errors_mode \<Rightarrow> libs \<Rightarrow> cell \<Rightarrow> py_error + cell" where
  "to_numeric_cell mode L NaN = Inr NaN"
| "to_numeric_cell mode L (Py JNull) = Inr NaN"
| "to_numeric_cell mode L (Py (JNum x)) = Inr (Py (JNum x))"
| "to_numeric_cell mode L (Py j) =
     (case to_number L j of
        Some x \<Rightarrow> Inr (Py (JNum x))
      | None \<Rightarrow> (case mode of ErrorsRaise \<Rightarrow> Inl ValueError | ErrorsCoerce \<Rightarrow> Inr NaN))"

definition to_numeric :: "errors_mode \<Rightarrow> libs \<Rightarrow> cell list \<Rightarrow> py_error + cell list" where
  "to_numeric mode L vals = map_err (to_numeric_cell mode L) vals"

text \<open>\<^verbatim>\<open>df.dropna(subset=cols)\<close>: keeps the rows with no null in the given columns.\<close>

definition dropna :: "string list \<Rightarrow> dataframe \<Rightarrow> py_error + dataframe" where
  "dropna cols df =
     (if list_all (\<lambda>c. c \<in> set (columns df)) cols
      then Inr (df\<lparr>rows := filter (\<lambda>r. list_all (\<lambda>c. \<not> isna (cell_at r c)) cols) (rows df)\<rparr>)
      else Inl KeyError)"

definition rename_column :: "string \<Rightarrow> string \<Rightarrow> dataframe \<Rightarrow> dataframe" where
  "rename_column old new df =
     \<lparr>columns = map (\<lambda>c. if c = old then new else c) (columns df),
      rows = map (map (\<lambda>(c, v). (if c = old then new else c, v))) (rows df)\<rparr>"

text \<open>
  \<^verbatim>\<open>column.mean()\<close>: the mean of the non-null numbers of the column, \<^verbatim>\<open>nan\<close> when
  there is none; a cell that is neither null nor a number raises. The arithmetic is that
  of the reals.
\<close>

fun cell_number :: "cell \<Rightarrow> py_error + real option" where
  "cell_number NaN = Inr None"
| "cell_number (Py JNull) = Inr None"
| "cell_number (Py (JNum x)) = Inr (Some x)"
| "cell_number (Py (JBool b)) = Inr (Some (if b then 1 else 0))"
| "cell_number (Py j) = Inl TypeError"

definition column_mean :: "dataframe \<Rightarrow> string \<Rightarrow> py_error + cell" where
  "column_mean df c =
     bind_err (get_column df c) (\<lambda>vals.
     bind_err (map_err cell_number vals) (\<lambda>ns.
       let xs = List.map_filter id ns
       in Inr (if xs = [] then NaN else Py (JNum (sum_list xs / real (length xs))))))"

section \<open>The monitor's state and what it leaves outside\<close>

text \<open>
  \<open>data\<close> and \<open>aqi_map\<close> are \<^verbatim>\<open>self.data\<close> and \<^verbatim>\<open>self.map\<close>. \<open>html_file\<close> and
  \<open>csv_file\<close> are the two output files (\<open>None\<close>: not written), and \<open>events\<close> records,
  in order, the log lines and the attempts on the file system. The content of a file
  is the object written to it: the map, or the frame with its cells.
\<close>

datatype level = INFO | ERROR

datatype message =
    RunStart | FetchFailed | ProcessFailed | MapFailed | RunDone
  | FetchStart | Fetched nat | BadResponseType | BadResponseContent
  | RequestFailed | JsonFailed
  | Processed nat
  | NoDataForMap | MapCreated
  | NoMapToSave | MapSaved | MapSaveFailed
  | NoDataToSave | DataSaved | DataSaveFailed

datatype event = Logged level message | Makedirs | HtmlWrite | CsvWrite

record circle_marker =
  location :: "cell \<times> cell"
  radius :: real
  popup_sitename :: cell
  popup_county :: cell
  popup_aqi :: real
  popup_color :: string
  popup_distance :: cell
  popup_level :: string
  tooltip_sitename :: cell
  tooltip_aqi :: real
  color :: string
  weight :: nat
  fill_color :: string
  fill_opacity :: real

datatype element = CircleMarker circle_marker | StationMarker "real \<times> real" | Legend

record folium_map =
  center :: "cell \<times> cell"
  zoom_start :: nat
  tiles :: string
  children :: "element list"

record state =
  data :: "json option"
  aqi_map :: "folium_map option"
  html_file :: "folium_map option"
  csv_file :: "dataframe option"
  events :: "event list"

definition init_state :: state where
  "init_state = \<lparr>data = None, aqi_map = None, html_file = None, csv_file = None, events = []\<rparr>"

definition logger :: "level \<Rightarrow> message \<Rightarrow> state \<Rightarrow> state" where
  "logger lv m s = s\<lparr>events := events s @ [Logged lv m]\<rparr>"

definition attempt :: "event \<Rightarrow> state \<Rightarrow> state" where
  "attempt ev s = s\<lparr>events := events s @ [ev]\<rparr>"

text \<open>
  The outside world of one run: the answer to the HTTP request (\<open>NoResponse\<close>: the
  request itself failed; otherwise the status code and the body, \<open>None\<close> for a body
  that is not JSON), and for each call into the file system whether it raises.
\<close>

datatype response = NoResponse | Response nat "json option"

record env =
  makedirs_html :: "py_error option"
  map_save :: "py_error option"
  makedirs_csv :: "py_error option"
  to_csv :: "py_error option"

section \<open>\<^verbatim>\<open>fetch_aqi_data\<close>\<close>

fun truthy :: "json \<Rightarrow> bool" where
  "truthy JNull = False"
| "truthy (JBool b) = b"
| "truthy (JNum x) = (x \<noteq> 0)"
| "truthy (JStr s) = (s \<noteq> [])"
| "truthy (JArr xs) = (xs \<noteq> [])"
| "truthy (JObj kvs) = (kvs \<noteq> [])"

fun is_substring :: "string \<Rightarrow> string \<Rightarrow> bool" where
  "is_substring p [] = (p = [])"
| "is_substring p (c # s) = (take (length p) (c # s) = p \<or> is_substring p s)"

text \<open>The number of code points of a UTF-8 string: its bytes that are not continuation bytes.\<close>

definition codepoints :: "string \<Rightarrow> nat" where
  "codepoints s = length (filter (\<lambda>c. \<not> (128 \<le> (of_char c :: nat) \<and> (of_char c :: nat) < 192)) s)"

text \<open>\<^verbatim>\<open>'records' in d\<close>, \<^verbatim>\<open>d['records']\<close> and \<^verbatim>\<open>len(d)\<close> on a parsed JSON value.\<close>

fun contains_records :: "json \<Rightarrow> py_error + bool" where
  "contains_records (JObj kvs) = Inr (''records'' \<in> set (map fst kvs))"
| "contains_records (JStr s) = Inr (is_substring ''records'' s)"
| "contains_records (JArr xs) = Inr (JStr ''records'' \<in> set xs)"
| "contains_records j = Inl TypeError"

fun getitem_records :: "json \<Rightarrow> py_error + json" where
  "getitem_records (JObj kvs) =
     (case map_of kvs ''records'' of None \<Rightarrow> Inl KeyError | Some v \<Rightarrow> Inr v)"
| "getitem_records j = Inl TypeError"

fun py_len :: "json \<Rightarrow> py_error + nat" where
  "py_len (JArr xs) = Inr (length xs)"
| "py_len (JObj kvs) = Inr (length kvs)"
| "py_len (JStr s) = Inr (codepoints s)"
| "py_len j = Inl TypeError"

text \<open>
  The two handlers catch \<^verbatim>\<open>RequestException\<close> (a failed request, a 4xx or 5xx
  status through \<^verbatim>\<open>raise_for_status\<close>) and \<^verbatim>\<open>JSONDecodeError\<close>; any other
  exception raised in the \<^verbatim>\<open>try\<close> block leaves the function.
\<close>

definition fetch_aqi_data :: "response \<Rightarrow> state \<Rightarrow> (py_error + bool) \<times> state" where
  "fetch_aqi_data resp s0 =
     (let s = logger INFO FetchStart s0 in
      case resp of
        NoResponse \<Rightarrow> (Inr False, logger ERROR RequestFailed s)
      | Response code body \<Rightarrow>
          if 400 \<le> code \<and> code < 600 then (Inr False, logger ERROR RequestFailed s)
          else
            (case body of
               None \<Rightarrow> (Inr False, logger ERROR JsonFailed s)
             | Some d \<Rightarrow>
                 (case d of
                    JArr xs \<Rightarrow>
                      (Inr True, logger INFO (Fetched (length xs)) (s\<lparr>data := Some d\<rparr>))
                  | _ \<Rightarrow>
                      (case contains_records d of
                         Inl e \<Rightarrow> (Inl e, s)
                       | Inr True \<Rightarrow>
                           (case getitem_records d of
                              Inl e \<Rightarrow> (Inl e, s)
                            | Inr v \<Rightarrow>
                                (let s' = s\<lparr>data := Some v\<rparr> in
                                 case py_len v of
                                   Inl e \<Rightarrow> (Inl e, s')
                                 | Inr n \<Rightarrow> (Inr True, logger INFO (Fetched n) s')))
                       | Inr False \<Rightarrow>
                           (Inr False,
                            logger ERROR BadResponseContent (logger ERROR BadResponseType s))))))"

section \<open>\<^verbatim>\<open>calculate_distance_to_taipei\<close> and \<^verbatim>\<open>process_data\<close>\<close>

text \<open>The bare \<^verbatim>\<open>except:\<close> handles every exception and returns \<^verbatim>\<open>None\<close>.\<close>

definition calculate_distance_to_taipei :: "libs \<Rightarrow> cell \<Rightarrow> cell \<Rightarrow> py_error + real option" where
  "calculate_distance_to_taipei L lat lon =
     try_except
       (let station_coords = (lat, lon);
            taipei_coords = (fst taipei_station, snd taipei_station)
        in bind_err (geodesic_km L station_coords taipei_coords) (\<lambda>distance.
           Inr (Some (round2 L distance))))
       (\<lambda>e. True)
       (\<lambda>e. None)"

definition columns_to_keep :: "string list" where
  "columns_to_keep =
     [''sitename'', ''county'', ''aqi'', ''pm25'', ''pm10'', ''o3'', ''no2'', ''so2'', ''co'',
      ''publishtime'']"

definition numeric_columns :: "string list" where
  "numeric_columns =
     [''aqi'', ''pm25'', ''pm10'', ''o3'', ''no2'', ''so2'', ''co'', ''latitude'', ''longitude'']"

text \<open>
  \<^verbatim>\<open>self.station_coordinates.get(x, [None, None])\<close>: a list or a dict as key is
  unhashable and raises \<^verbatim>\<open>TypeError\<close>; for a hashable key the result is the stored
  pair, or the default for a key that is not a station name.
\<close>

fun hashable :: "cell \<Rightarrow> bool" where
  "hashable (Py (JArr xs)) = False"
| "hashable (Py (JObj kvs)) = False"
| "hashable c = True"

definition coordinates_default :: "cell \<Rightarrow> json \<times> json" where
  "coordinates_default x =
     (case x of
        Py (JStr name) \<Rightarrow>
          (case station_lookup name of
             Some (la, lo) \<Rightarrow> (JNum la, JNum lo)
           | None \<Rightarrow> (JNull, JNull))
      | _ \<Rightarrow> (JNull, JNull))"

definition coordinates_get :: "cell \<Rightarrow> py_error + json \<times> json" where
  "coordinates_get x = (if \<not> hashable x then Inl TypeError else Inr (coordinates_default x))"

text \<open>
  Lines 164 and 165, one column each:
  \<^verbatim>\<open>df[col] = df['sitename'].map(lambda x: self.station_coordinates.get(x, [None, None])[i])\<close>,
  with \<open>pick\<close> the index into the pair.
\<close>

definition attach_coordinate ::
  "string \<Rightarrow> (json \<times> json \<Rightarrow> json) \<Rightarrow> dataframe \<Rightarrow> py_error + dataframe" where
  "attach_coordinate col pick df =
     bind_err (get_column df ''sitename'') (\<lambda>names.
     bind_err (map_err (\<lambda>x. bind_err (coordinates_get x) (\<lambda>p. Inr (Py (pick p)))) names)
       (\<lambda>vals.
     Inr (set_column col vals df)))"

text \<open>The loop of lines 168 to 171: each numeric column that the frame has is coerced.\<close>

fun coerce_columns :: "libs \<Rightarrow> string list \<Rightarrow> dataframe \<Rightarrow> py_error + dataframe" where
  "coerce_columns L [] df = Inr df"
| "coerce_columns L (col # cols) df =
     (if col \<in> set (columns df)
      then bind_err (get_column df col) (\<lambda>vals.
           bind_err (to_numeric ErrorsCoerce L vals) (\<lambda>vals'.
           coerce_columns L cols (set_column col vals' df)))
      else coerce_columns L cols df)"

text \<open>
  Lines 181 to 184: the function applied to each row, and the assignment of the
  distance column. What \<^verbatim>\<open>calculate_distance_to_taipei\<close> returns is the cell.
\<close>

definition distance_of_row :: "libs \<Rightarrow> row \<Rightarrow> py_error + cell" where
  "distance_of_row L r =
     bind_err (row_get r ''latitude'') (\<lambda>lat.
     bind_err (row_get r ''longitude'') (\<lambda>lon.
     bind_err (calculate_distance_to_taipei L lat lon) (\<lambda>d.
       Inr (case d of None \<Rightarrow> Py JNull | Some km \<Rightarrow> Py (JNum km)))))"

definition add_distance :: "libs \<Rightarrow> dataframe \<Rightarrow> py_error + dataframe" where
  "add_distance L df =
     bind_err (map_err (distance_of_row L) (rows df)) (\<lambda>dists.
     Inr (set_column ''distance_to_taipei'' dists df))"

definition process_data :: "libs \<Rightarrow> state \<Rightarrow> (py_error + dataframe option) \<times> state" where
  "process_data L s =
     (case data s of
        None \<Rightarrow> (Inr None, s)
      | Some d \<Rightarrow>
          if \<not> truthy d then (Inr None, s)
          else
            (case
               bind_err (DataFrame L d) (\<lambda>df0.
               let available_columns = filter (\<lambda>col. col \<in> set (columns df0)) columns_to_keep;
                   df1 = take_columns available_columns df0
               in
               bind_err (attach_coordinate ''latitude'' fst df1) (\<lambda>df2.
               bind_err (attach_coordinate ''longitude'' snd df2) (\<lambda>df3.
               bind_err (coerce_columns L numeric_columns df3) (\<lambda>df4.
               bind_err (dropna [''latitude'', ''longitude''] df4) (\<lambda>df5.
               let df6 = (if ''publishtime'' \<in> set (columns df5)
                          then rename_column ''publishtime'' ''datacreationdate'' df5
                          else df5)
               in add_distance L df6)))))
             of
               Inl e \<Rightarrow> (Inl e, s)
             | Inr df \<Rightarrow> (Inr (Some df), logger INFO (Processed (length (rows df))) s)))"

section \<open>\<^verbatim>\<open>create_map\<close>\<close>

text \<open>
  \<^verbatim>\<open>row['aqi'] if pd.notna(row['aqi']) else 0\<close>, as the number the classifier and
  the radius then use; a cell that is neither null nor a number raises at the
  comparison.
\<close>

definition aqi_value_of :: "cell \<Rightarrow> py_error + real" where
  "aqi_value_of c =
     (if isna c then Inr 0
      else bind_err (cell_number c) (\<lambda>n. case n of None \<Rightarrow> Inr 0 | Some x \<Rightarrow> Inr x))"

text \<open>The body of the loop over the rows (lines 235 to 261).\<close>

definition marker_of_row :: "row \<Rightarrow> py_error + circle_marker" where
  "marker_of_row r =
     bind_err (row_get r ''aqi'') (\<lambda>a.
     bind_err (aqi_value_of a) (\<lambda>aqi_value.
     let color = get_aqi_color aqi_value;
         level = get_aqi_level aqi_value
     in
     bind_err (row_get r ''sitename'') (\<lambda>sitename.
     bind_err (row_get r ''county'') (\<lambda>county.
     bind_err (row_get r ''distance_to_taipei'') (\<lambda>distance.
     bind_err (row_get r ''latitude'') (\<lambda>lat.
     bind_err (row_get r ''longitude'') (\<lambda>lon.
       Inr \<lparr>location = (lat, lon),
            radius = 8 + aqi_value / 50,
            popup_sitename = sitename,
            popup_county = county,
            popup_aqi = aqi_value,
            popup_color = color,
            popup_distance = distance,
            popup_level = level,
            tooltip_sitename = sitename,
            tooltip_aqi = aqi_value,
            color = ''black'',
            weight = 1,
            fill_color = color,
            fill_opacity = 0.7\<rparr>)))))))"

fun add_markers :: "row list \<Rightarrow> folium_map \<Rightarrow> py_error option \<times> folium_map" where
  "add_markers [] m = (None, m)"
| "add_markers (r # rs) m =
     (case marker_of_row r of
        Inl e \<Rightarrow> (Some e, m)
      | Inr mk \<Rightarrow> add_markers rs (m\<lparr>children := children m @ [CircleMarker mk]\<rparr>))"

text \<open>
  \<^verbatim>\<open>self.map\<close> is assigned before the loop, so an exception raised in the loop
  leaves the map built so far in the state.
\<close>

definition create_map :: "dataframe \<Rightarrow> state \<Rightarrow> (py_error + folium_map option) \<times> state" where
  "create_map df s =
     (if empty_df df then (Inr None, logger ERROR NoDataForMap s)
      else
        (case column_mean df ''latitude'' of
           Inl e \<Rightarrow> (Inl e, s)
         | Inr center_lat \<Rightarrow>
             (case column_mean df ''longitude'' of
                Inl e \<Rightarrow> (Inl e, s)
              | Inr center_lon \<Rightarrow>
                  (let m0 = \<lparr>center = (center_lat, center_lon), zoom_start = 8,
                             tiles = ''OpenStreetMap'', children = []\<rparr>
                   in case add_markers (rows df) m0 of
                        (Some e, m) \<Rightarrow> (Inl e, s\<lparr>aqi_map := Some m\<rparr>)
                      | (None, m) \<Rightarrow>
                          (let m' = m\<lparr>children :=
                                        children m @ [StationMarker taipei_station, Legend]\<rparr>
                           in (Inr (Some m'),
                               logger INFO MapCreated (s\<lparr>aqi_map := Some m'\<rparr>)))))))"

section \<open>\<^verbatim>\<open>save_map\<close>, \<^verbatim>\<open>save_data\<close> and \<^verbatim>\<open>run\<close>\<close>

text \<open>
  Both are called with their default file names. \<^verbatim>\<open>os.makedirs\<close> stands before the
  \<^verbatim>\<open>try\<close> block; \<^verbatim>\<open>except Exception\<close> handles every exception of \<open>py_error\<close>.
  \<^verbatim>\<open>save_data\<close> returns \<^verbatim>\<open>None\<close> (no \<^verbatim>\<open>return\<close> is reached) when
  \<^verbatim>\<open>process_data\<close> gives no frame.
\<close>

definition save_map :: "env \<Rightarrow> state \<Rightarrow> (py_error + bool) \<times> state" where
  "save_map E s =
     (case aqi_map s of
        None \<Rightarrow> (Inr False, logger ERROR NoMapToSave s)
      | Some m \<Rightarrow>
          (let s1 = attempt Makedirs s in
           case makedirs_html E of
             Some e \<Rightarrow> (Inl e, s1)
           | None \<Rightarrow>
               (let s2 = attempt HtmlWrite s1 in
                case map_save E of
                  Some e \<Rightarrow> (Inr False, logger ERROR MapSaveFailed s2)
                | None \<Rightarrow> (Inr True, logger INFO MapSaved (s2\<lparr>html_file := Some m\<rparr>)))))"

definition save_data :: "libs \<Rightarrow> env \<Rightarrow> state \<Rightarrow> (py_error + bool option) \<times> state" where
  "save_data L E s =
     (case data s of
        None \<Rightarrow> (Inr (Some False), logger ERROR NoDataToSave s)
      | Some d \<Rightarrow>
          (let s1 = attempt Makedirs s in
           case makedirs_csv E of
             Some e \<Rightarrow> (Inl e, s1)
           | None \<Rightarrow>
               (case process_data L s1 of
                  (Inl e, s2) \<Rightarrow> (Inr (Some False), logger ERROR DataSaveFailed s2)
                | (Inr None, s2) \<Rightarrow> (Inr None, s2)
                | (Inr (Some df), s2) \<Rightarrow>
                    (let s3 = attempt CsvWrite s2 in
                     case to_csv E of
                       Some e \<Rightarrow> (Inr (Some False), logger ERROR DataSaveFailed s3)
                     | None \<Rightarrow>
                         (Inr (Some True), logger INFO DataSaved (s3\<lparr>csv_file := Some df\<rparr>))))))"

definition run :: "libs \<Rightarrow> response \<Rightarrow> env \<Rightarrow> state \<Rightarrow> (py_error + bool) \<times> state" where
  "run L resp E s0 =
     (let s = logger INFO RunStart s0 in
      case fetch_aqi_data resp s of
        (Inl e, s1) \<Rightarrow> (Inl e, s1)
      | (Inr ok, s1) \<Rightarrow>
          if \<not> ok then (Inr False, logger ERROR FetchFailed s1)
          else
            (case process_data L s1 of
               (Inl e, s2) \<Rightarrow> (Inl e, s2)
             | (Inr None, s2) \<Rightarrow> (Inr False, logger ERROR ProcessFailed s2)
             | (Inr (Some df), s2) \<Rightarrow>
                 if empty_df df then (Inr False, logger ERROR ProcessFailed s2)
                 else
                   (case create_map df s2 of
                      (Inl e, s3) \<Rightarrow> (Inl e, s3)
                    | (Inr None, s3) \<Rightarrow> (Inr False, logger ERROR MapFailed s3)
                    | (Inr (Some aqi_map'), s3) \<Rightarrow>
                        (case save_map E s3 of
                           (Inl e, s4) \<Rightarrow> (Inl e, s4)
                         | (Inr saved_map, s4) \<Rightarrow>
                             (case save_data L E s4 of
                                (Inl e, s5) \<Rightarrow> (Inl e, s5)
                              | (Inr saved_data, s5) \<Rightarrow>
                                  (Inr True, logger INFO RunDone s5))))))"

section \<open>Notions used in the statements\<close>

text \<open>
  The number a cell is read as by \<^verbatim>\<open>pd.to_numeric\<close>: none for a null cell, the number
  itself for a number, and the library's reading for any other object (\<open>None\<close>: the
  value is not parseable as a number). \<open>coerced\<close> is the cell that
  \<^verbatim>\<open>errors='coerce'\<close> then stores.
\<close>

definition number_read :: "libs \<Rightarrow> cell \<Rightarrow> real option" where
  "number_read L c =
     (case c of
        NaN \<Rightarrow> None
      | Py JNull \<Rightarrow> None
      | Py (JNum x) \<Rightarrow> Some x
      | Py j \<Rightarrow> to_number L j)"

definition coerced :: "libs \<Rightarrow> cell \<Rightarrow> cell" where
  "coerced L c = (case number_read L c of None \<Rightarrow> NaN | Some x \<Rightarrow> Py (JNum x))"

text \<open>
  A raw record's station, when its site name is a key of the coordinate table: the
  name with the table's latitude and longitude. \<open>site_cells\<close> reads the three cells of
  a row that identify and place a station, \<open>resolved_cells\<close> is what they hold for a
  resolved station.
\<close>

definition site_of :: "(string \<times> json) list \<Rightarrow> (string \<times> real \<times> real) option" where
  "site_of rec =
     (case map_of rec ''sitename'' of
        Some (JStr name) \<Rightarrow>
          (case station_lookup name of Some (la, lo) \<Rightarrow> Some (name, la, lo) | None \<Rightarrow> None)
      | _ \<Rightarrow> None)"

definition site_cells :: "row \<Rightarrow> cell option \<times> cell option \<times> cell option" where
  "site_cells r = (map_of r ''sitename'', map_of r ''latitude'', map_of r ''longitude'')"

definition resolved_cells ::
  "string \<times> real \<times> real \<Rightarrow> cell option \<times> cell option \<times> cell option" where
  "resolved_cells p =
     (case p of (name, la, lo) \<Rightarrow>
        (Some (Py (JStr name)), Some (Py (JNum la)), Some (Py (JNum lo))))"

definition resolved_location :: "string \<times> real \<times> real \<Rightarrow> cell \<times> cell" where
  "resolved_location p = (case p of (name, la, lo) \<Rightarrow> (Py (JNum la), Py (JNum lo)))"

text \<open>The circle markers among the children of a map, in the order they were added.\<close>

fun circle_markers :: "element list \<Rightarrow> circle_marker list" where
  "circle_markers [] = []"
| "circle_markers (CircleMarker mk # es) = mk # circle_markers es"
| "circle_markers (e # es) = circle_markers es"

section \<open>Sample libraries and inputs for the concrete evaluations\<close>

text \<open>
  One possible library: strings of decimal digits are read as numbers, the distance is
  a stand-in that raises on cells that are not numbers and on latitudes outside
  \<open>[-90, 90]\<close>, rounding is to the nearest hundredth. The theorems do not depend on
  it; the closed evaluations use it.
\<close>

fun read_digits :: "nat \<Rightarrow> string \<Rightarrow> nat option" where
  "read_digits acc [] = Some acc"
| "read_digits acc (c # s) =
     (if 48 \<le> (of_char c :: nat) \<and> (of_char c :: nat) \<le> 57
      then read_digits (10 * acc + ((of_char c :: nat) - 48)) s
      else None)"

definition sample_libs :: libs where
  "sample_libs =
     \<lparr>frame_other = (\<lambda>d. Inl ValueError),
      to_number = (\<lambda>j. case j of
                         JStr t \<Rightarrow> (if t = [] then None else map_option real (read_digits 0 t))
                       | _ \<Rightarrow> None),
      geodesic_km = (\<lambda>p q. case p of
                         (Py (JNum a), Py (JNum b)) \<Rightarrow>
                           if \<bar>a\<bar> \<le> 90 then Inr (111 * (\<bar>a - fst q\<bar> + \<bar>b - snd q\<bar>))
                           else Inl ValueError
                       | _ \<Rightarrow> Inl TypeError),
      round2 = (\<lambda>x. real_of_int (round (x * 100)) / 100)\<rparr>"

definition sample_env :: env where
  "sample_env = \<lparr>makedirs_html = None, map_save = None, makedirs_csv = None, to_csv = None\<rparr>"

text \<open>
  The station name of the specification's first scenario (U+5927 U+5B89), the name of
  its second scenario, which is no key of the table, and a county (U+81FA U+5317 U+5E02).
\<close>

definition name_daan :: string where
  "name_daan = [CHR 0xE5, CHR 0xA4, CHR 0xA7, CHR 0xE5, CHR 0xAE, CHR 0x89]"

definition name_unknown :: string where
  "name_unknown =
     [CHR 0xE6, CHR 0x9C, CHR 0xAA, CHR 0xE7, CHR 0x9F, CHR 0xA5,
      CHR 0xE6, CHR 0xB8, CHR 0xAC, CHR 0xE7, CHR 0xAB, CHR 0x99]"

definition county_taipei :: string where
  "county_taipei =
     [CHR 0xE8, CHR 0x87, CHR 0xBA, CHR 0xE5, CHR 0x8C, CHR 0x97, CHR 0xE5, CHR 0xB8, CHR 0x82]"

definition record_daan :: "(string \<times> json) list" where
  "record_daan =
     [(''sitename'', JStr name_daan), (''county'', JStr county_taipei),
      (''aqi'', JStr ''45''), (''pm25'', JStr ''12'')]"

definition record_unknown :: "(string \<times> json) list" where
  "record_unknown = [(''sitename'', JStr name_unknown), (''aqi'', JStr ''80'')]"

definition record_no_aqi :: "(string \<times> json) list" where
  "record_no_aqi =
     [(''sitename'', JStr name_daan), (''county'', JStr county_taipei), (''aqi'', JStr '''')]"

definition record_no_sitename :: "(string \<times> json) list" where
  "record_no_sitename = [(''county'', JStr county_taipei), (''aqi'', JStr ''80'')]"

definition enriched_daan :: dataframe where
  "enriched_daan =
     \<lparr>columns = [''sitename'', ''county'', ''aqi'', ''pm25'', ''latitude'', ''longitude'',
                 ''distance_to_taipei''],
      rows = [[(''sitename'', Py (JStr name_daan)), (''county'', Py (JStr county_taipei)),
               (''aqi'', Py (JNum 45)), (''pm25'', Py (JNum 12)),
               (''latitude'', Py (JNum 25.0263)), (''longitude'', Py (JNum 121.5438)),
               (''distance_to_taipei'', Py (JNum 5.36))]]\<rparr>"

definition enriched_no_aqi :: dataframe where
  "enriched_no_aqi =
     \<lparr>columns = [''sitename'', ''county'', ''aqi'', ''latitude'', ''longitude'',
                 ''distance_to_taipei''],
      rows = [[(''sitename'', Py (JStr name_daan)), (''county'', Py (JStr county_taipei)),
               (''aqi'', NaN),
               (''latitude'', Py (JNum 25.0263)), (''longitude'', Py (JNum 121.5438)),
               (''distance_to_taipei'', Py (JNum 5.36))]]\<rparr>"

definition mixed_frame :: dataframe where
  "mixed_frame =
     \<lparr>columns = [''sitename'', ''aqi''],
      rows = [[(''sitename'', Py (JStr name_daan)), (''aqi'', Py (JStr ''n/a''))],
              [(''sitename'', Py (JStr name_unknown)), (''aqi'', Py (JStr ''45''))]]\<rparr>"

section \<open>Lemmas about the stages\<close>

lemma bind_err_Inr_iff: "(bind_err m f = Inr y) = (\<exists>x. m = Inr x \<and> f x = Inr y)"
  by (cases m) (simp_all add: bind_err_def)

lemma bind_err_Inr [simp]: "bind_err (Inr x) f = f x"
  by (simp add: bind_err_def)

lemma bind_err_Inl [simp]: "bind_err (Inl e) f = Inl e"
  by (simp add: bind_err_def)

lemma map_err_Inr_iff: "(map_err f xs = Inr ys) = (map f xs = map Inr ys)"
proof (induction xs arbitrary: ys)
  case Nil
  then show ?case by auto
next
  case (Cons x xs)
  show ?case
  proof (cases "f x")
    case (Inl e)
    then show ?thesis by (cases ys) auto
  next
    case (Inr y)
    then show ?thesis
      using Cons.IH by (cases ys; cases "map_err f xs") auto
  qed
qed

lemma map_err_pure: "map_err (\<lambda>x. Inr (g x)) xs = Inr (map g xs)"
  by (simp add: map_err_Inr_iff)

lemma to_numeric_cell_coerce: "to_numeric_cell ErrorsCoerce L c = Inr (coerced L c)"
  by (cases "(ErrorsCoerce, L, c)" rule: to_numeric_cell.cases)
     (simp_all add: coerced_def number_read_def split: option.splits)

lemma to_numeric_coerce: "to_numeric ErrorsCoerce L vals = Inr (map (coerced L) vals)"
  by (simp add: to_numeric_def map_err_Inr_iff to_numeric_cell_coerce)

lemma coerced_idem: "coerced L (coerced L c) = coerced L c"
  by (simp add: coerced_def number_read_def split: option.splits cell.splits json.splits)

lemma map_of_row_set: "map_of (row_set k v r) c = (if c = k then Some v else map_of r c)"
  by (induction r) auto

lemma cell_at_row_set: "cell_at (row_set k v r) c = (if c = k then v else cell_at r c)"
  by (simp add: cell_at_def map_of_row_set)

lemma zip_map_same: "map (\<lambda>(r, v). h r v) (zip rs (map g rs)) = map (\<lambda>r. h r (g r)) rs"
  by (induction rs) auto

lemma set_column_map:
  "set_column c (map g (rows df)) df =
     \<lparr>columns = add_key (columns df) c, rows = map (\<lambda>r. row_set c (g r) r) (rows df)\<rparr>"
  by (simp add: set_column_def zip_map_same)

lemma coerce_columns_rows:
  "\<exists>df'. coerce_columns L cols df = Inr df' \<and> columns df' = columns df \<and>
         length (rows df') = length (rows df) \<and>
         (\<forall>i < length (rows df). \<forall>c.
            map_of (rows df' ! i) c =
              (if c \<in> set cols \<and> c \<in> set (columns df)
               then Some (coerced L (cell_at (rows df ! i) c))
               else map_of (rows df ! i) c))"
proof (induction cols arbitrary: df)
  case Nil
  show ?case by simp
next
  case (Cons col cols)
  show ?case
  proof (cases "col \<in> set (columns df)")
    case False
    with Cons.IH [of df] show ?thesis by auto
  next
    case True
    define df1 where "df1 = set_column col (map (coerced L) (map (\<lambda>r. cell_at r col) (rows df))) df"
    have step: "coerce_columns L (col # cols) df = coerce_columns L cols df1"
      using True by (simp add: get_column_def to_numeric_coerce df1_def)
    have df1: "columns df1 = columns df"
      "rows df1 = map (\<lambda>r. row_set col (coerced L (cell_at r col)) r) (rows df)"
      using True set_column_map [of col "\<lambda>r. coerced L (cell_at r col)" df]
      by (simp_all add: df1_def add_key_def comp_def)
    from Cons.IH [of df1] obtain df' where
      r: "coerce_columns L cols df1 = Inr df'" "columns df' = columns df1"
         "length (rows df') = length (rows df1)"
         "\<forall>i < length (rows df1). \<forall>c. map_of (rows df' ! i) c =
              (if c \<in> set cols \<and> c \<in> set (columns df1)
               then Some (coerced L (cell_at (rows df1 ! i) c))
               else map_of (rows df1 ! i) c)"
      by blast
    show ?thesis
      using r step df1 True
      by (auto simp: cell_at_row_set map_of_row_set coerced_idem)
  qed
qed


lemma map_err_guard:
  "map_err (\<lambda>x. if P x then Inr (g x) else Inl e) xs =
     (if list_all P xs then Inr (map g xs) else Inl e)"
  by (induction xs) auto

lemma map_of_tabulate:
  "map_of (map (\<lambda>c. (c, f c)) cols) k = (if k \<in> set cols then Some (f k) else None)"
  by (induction cols) auto

lemma set_foldl_add_key: "set (foldl add_key acc ks) = set acc \<union> set ks"
  by (induction ks arbitrary: acc) (auto simp: add_key_def)

lemma set_union_keys_aux:
  "set (foldl (\<lambda>acc kvs. foldl add_key acc (map fst kvs)) acc ds) =
     set acc \<union> (\<Union>kvs \<in> set ds. fst ` set kvs)"
  by (induction ds arbitrary: acc) (auto simp: set_foldl_add_key)

lemma set_union_keys: "set (union_keys ds) = (\<Union>kvs \<in> set ds. fst ` set kvs)"
  by (simp add: union_keys_def set_union_keys_aux)

lemma attach_coordinate_eq:
  "attach_coordinate col pick df =
     (if ''sitename'' \<notin> set (columns df) then Inl KeyError
      else if \<not> list_all (\<lambda>r. hashable (cell_at r ''sitename'')) (rows df) then Inl TypeError
      else Inr \<lparr>columns = add_key (columns df) col,
                rows = map (\<lambda>r. row_set col (Py (pick (coordinates_default (cell_at r ''sitename'')))) r)
                         (rows df)\<rparr>)"
proof -
  have f: "(\<lambda>x. bind_err (coordinates_get x) (\<lambda>p. Inr (Py (pick p)))) =
           (\<lambda>x. if hashable x then Inr (Py (pick (coordinates_default x))) else Inl TypeError)"
    by (rule ext) (simp add: coordinates_get_def)
  show ?thesis
    by (simp add: attach_coordinate_def get_column_def f map_err_guard list_all_iff
        set_column_def zip_map_same [where g = "\<lambda>r. Py (pick (coordinates_default (cell_at r ''sitename'')))", simplified] comp_def)
qed


lemma map_of_rename:
  "k \<noteq> old \<Longrightarrow> k \<noteq> new \<Longrightarrow>
   map_of (map (\<lambda>(c, v). (if c = old then new else c, v)) r) k = map_of r k"
  by (induction r) auto

lemma rows_rename_column:
  "rows (rename_column old new df) = map (map (\<lambda>(c, v). (if c = old then new else c, v))) (rows df)"
  by (simp add: rename_column_def)

lemma calculate_distance_Inr: "\<exists>d. calculate_distance_to_taipei L lat lon = Inr d"
  by (simp add: calculate_distance_to_taipei_def try_except_def bind_err_def split: sum.splits)

lemma distance_of_row_Inr:
  assumes "map_of r ''latitude'' \<noteq> None" and "map_of r ''longitude'' \<noteq> None"
  shows "\<exists>c. distance_of_row L r = Inr c"
proof -
  from assms obtain la lo where "map_of r ''latitude'' = Some la" "map_of r ''longitude'' = Some lo"
    by auto
  moreover obtain d where "calculate_distance_to_taipei L la lo = Inr d"
    using calculate_distance_Inr by blast
  ultimately show ?thesis
    by (simp add: distance_of_row_def row_get_def)
qed

lemma map_err_total:
  assumes "\<forall>x \<in> set xs. \<exists>y. f x = Inr y"
  shows "\<exists>g. map_err f xs = Inr (map g xs) \<and> (\<forall>x \<in> set xs. f x = Inr (g x))"
proof -
  define g where "g = (\<lambda>x. case f x of Inr y \<Rightarrow> y)"
  have "\<forall>x \<in> set xs. f x = Inr (g x)"
    using assms by (auto simp: g_def)
  then have "map f xs = map Inr (map g xs)"
    by simp
  then show ?thesis
    using \<open>\<forall>x \<in> set xs. f x = Inr (g x)\<close> by (auto simp: map_err_Inr_iff)
qed

lemma add_distance_rows:
  assumes "\<forall>r \<in> set (rows df). map_of r ''latitude'' \<noteq> None \<and> map_of r ''longitude'' \<noteq> None"
  shows "\<exists>g. add_distance L df =
           Inr \<lparr>columns = add_key (columns df) ''distance_to_taipei'',
                rows = map (\<lambda>r. row_set ''distance_to_taipei'' (g r) r) (rows df)\<rparr> \<and>
           (\<forall>r \<in> set (rows df). distance_of_row L r = Inr (g r))"
proof -
  have "\<forall>r \<in> set (rows df). \<exists>c. distance_of_row L r = Inr c"
    using assms distance_of_row_Inr by blast
  from map_err_total [OF this] obtain g where
    g: "map_err (distance_of_row L) (rows df) = Inr (map g (rows df))"
       "\<forall>r \<in> set (rows df). distance_of_row L r = Inr (g r)"
    by blast
  show ?thesis
    using g by (intro exI [of _ g]) (simp add: add_distance_def set_column_map)
qed

lemma site_cells_row_set:
  "k \<noteq> ''sitename'' \<Longrightarrow> k \<noteq> ''latitude'' \<Longrightarrow> k \<noteq> ''longitude'' \<Longrightarrow>
   site_cells (row_set k v r) = site_cells r"
  by (simp add: site_cells_def map_of_row_set)

lemma coerced_coordinate:
  "coerced L (Py (JNum x)) = Py (JNum x)" "coerced L (Py JNull) = NaN"
  by (simp_all add: coerced_def number_read_def)


lemma sitename_available:
  assumes "''sitename'' \<in> set cols"
  shows "''sitename'' \<in> set (filter (\<lambda>col. col \<in> set cols) columns_to_keep)"
  using assms by (simp add: columns_to_keep_def)

lemma coordinate_not_kept:
  "''latitude'' \<notin> set (filter P columns_to_keep)" "''longitude'' \<notin> set (filter P columns_to_keep)"
  by (simp_all add: columns_to_keep_def)

lemma coordinates_numeric:
  "''latitude'' \<in> set numeric_columns" "''longitude'' \<in> set numeric_columns"
  "''sitename'' \<notin> set numeric_columns"
  by (simp_all add: numeric_columns_def)

lemma resolved_triple:
  "(\<not> isna (coerced L (Py (fst (coordinates_default (raw_cell kvs ''sitename''))))) \<and>
    \<not> isna (coerced L (Py (snd (coordinates_default (raw_cell kvs ''sitename'')))))) =
   (site_of kvs \<noteq> None)"
  by (auto simp: coordinates_default_def raw_cell_def site_of_def isna_def coerced_coordinate
      split: option.splits json.splits)

lemma resolved_expected:
  assumes "site_of kvs = Some p"
  shows "(Some (raw_cell kvs ''sitename''),
          Some (coerced L (Py (fst (coordinates_default (raw_cell kvs ''sitename''))))),
          Some (coerced L (Py (snd (coordinates_default (raw_cell kvs ''sitename'')))))) = resolved_cells p"
  using assms
  by (auto simp: coordinates_default_def raw_cell_def site_of_def resolved_cells_def coerced_coordinate
      split: option.splits json.splits)

lemma process_data_rows:
  assumes d: "data s = Some (JArr xs)" "xs \<noteq> []" "list_all is_dict xs"
    and site: "''sitename'' \<in> (\<Union>x \<in> set xs. fst ` set (dict_items x))"
    and hash: "list_all (\<lambda>x. hashable (raw_cell (dict_items x) ''sitename'')) xs"
  shows "\<exists>df. process_data L s = (Inr (Some df), logger INFO (Processed (length (rows df))) s) \<and>
           map site_cells (rows df) = map resolved_cells (List.map_filter (\<lambda>x. site_of (dict_items x)) xs)"
proof -
  define cols0 where "cols0 = union_keys (map dict_items xs)"
  define df0 where "df0 = \<lparr>columns = cols0, rows = map (\<lambda>x. row_of_dict cols0 (dict_items x)) xs\<rparr>"
  have D: "DataFrame L (JArr xs) = Inr df0"
    using d(3) by (simp add: DataFrame_def Let_def df0_def cols0_def)
  define avail where "avail = filter (\<lambda>col. col \<in> set (columns df0)) columns_to_keep"
  define df1 where "df1 = take_columns avail df0"
  have site0: "''sitename'' \<in> set cols0"
    using site by (simp add: cols0_def set_union_keys)
  have site1: "''sitename'' \<in> set avail"
    using sitename_available [OF site0] by (simp add: avail_def df0_def)
  define nm where "nm = (\<lambda>x. raw_cell (dict_items x) ''sitename'')"
  define r1 where "r1 = (\<lambda>x. map (\<lambda>c. (c, cell_at (row_of_dict cols0 (dict_items x)) c)) avail)"
  have rows1: "rows df1 = map r1 xs" and cols1: "columns df1 = avail"
    by (simp_all add: df1_def take_columns_def df0_def r1_def comp_def)
  have nm1: "cell_at (r1 x) ''sitename'' = nm x" for x
    using site0 site1
    by (simp add: r1_def cell_at_def map_of_tabulate row_of_dict_def nm_def)
  define LA where "LA = (\<lambda>x. Py (fst (coordinates_default (nm x))))"
  define LO where "LO = (\<lambda>x. Py (snd (coordinates_default (nm x))))"
  define r3 where "r3 = (\<lambda>x. row_set ''longitude'' (LO x) (row_set ''latitude'' (LA x) (r1 x)))"
  define df2 where "df2 = \<lparr>columns = add_key avail ''latitude'',
                            rows = map (\<lambda>x. row_set ''latitude'' (LA x) (r1 x)) xs\<rparr>"
  define df3 where "df3 = \<lparr>columns = add_key (add_key avail ''latitude'') ''longitude'',
                            rows = map r3 xs\<rparr>"
  have hash1: "list_all (\<lambda>r. hashable (cell_at r ''sitename'')) (rows df1)"
    using hash by (simp add: rows1 list_all_iff nm1 nm_def)
  have A1: "attach_coordinate ''latitude'' fst df1 = Inr df2"
    using site1 hash1
    by (simp add: attach_coordinate_eq cols1 rows1 df2_def comp_def nm1 LA_def)
  have hash2: "list_all (\<lambda>r. hashable (cell_at r ''sitename'')) (rows df2)"
    using hash by (simp add: df2_def list_all_iff cell_at_row_set nm1 nm_def)
  have site2: "''sitename'' \<in> set (columns df2)"
    using site1 by (simp add: df2_def add_key_def)
  have A2: "attach_coordinate ''longitude'' snd df2 = Inr df3"
    using site2 hash2
    by (simp add: attach_coordinate_eq df2_def df3_def comp_def cell_at_row_set nm1 LO_def r3_def)
  have cols3: "''latitude'' \<in> set (columns df3)" "''longitude'' \<in> set (columns df3)"
    by (auto simp: df3_def add_key_def)
  obtain df4 where C: "coerce_columns L numeric_columns df3 = Inr df4"
    and cols4: "columns df4 = columns df3"
    and len4: "length (rows df4) = length (rows df3)"
    and cells4: "\<forall>i < length (rows df3). \<forall>c.
            map_of (rows df4 ! i) c =
              (if c \<in> set numeric_columns \<and> c \<in> set (columns df3)
               then Some (coerced L (cell_at (rows df3 ! i) c))
               else map_of (rows df3 ! i) c)"
    using coerce_columns_rows [of L numeric_columns df3] by blast
  define T where "T = (\<lambda>x. (Some (nm x), Some (coerced L (LA x)), Some (coerced L (LO x))))"
  have t4: "map site_cells (rows df4) = map T xs"
  proof (rule nth_equalityI)
    show "length (map site_cells (rows df4)) = length (map T xs)"
      by (simp add: len4 df3_def)
  next
    fix i assume "i < length (map site_cells (rows df4))"
    then have i: "i < length xs" by (simp add: len4 df3_def)
    then have i3: "i < length (rows df3)" by (simp add: df3_def)
    have r: "rows df3 ! i = r3 (xs ! i)" using i by (simp add: df3_def)
    have s: "map_of (r3 x) ''sitename'' = Some (nm x)" for x
      using site1 site0
      by (simp add: r3_def map_of_row_set r1_def map_of_tabulate cell_at_def row_of_dict_def nm_def)
    have c: "cell_at (r3 x) ''latitude'' = LA x" "cell_at (r3 x) ''longitude'' = LO x" for x
      by (simp_all add: r3_def cell_at_row_set)
    show "map site_cells (rows df4) ! i = map T xs ! i"
      using i i3 cells4 cols3 coordinates_numeric
      by (simp add: len4 site_cells_def r T_def s c)
  qed
  define Q where "Q = (\<lambda>r. list_all (\<lambda>c. \<not> isna (cell_at r c)) [''latitude'', ''longitude''])"
  define df5 where "df5 = df4\<lparr>rows := filter Q (rows df4)\<rparr>"
  have DN: "dropna [''latitude'', ''longitude''] df4 = Inr df5"
    using cols3 by (simp add: dropna_def cols4 df5_def Q_def)
  define Q' where "Q' = (\<lambda>t :: cell option \<times> cell option \<times> cell option.
      \<not> isna (case fst (snd t) of None \<Rightarrow> NaN | Some v \<Rightarrow> v) \<and>
      \<not> isna (case snd (snd t) of None \<Rightarrow> NaN | Some v \<Rightarrow> v))"
  have QQ: "Q = Q' \<circ> site_cells"
    by (rule ext) (simp add: Q_def Q'_def site_cells_def cell_at_def)
  have t5: "map site_cells (rows df5) = map T (filter (\<lambda>x. site_of (dict_items x) \<noteq> None) xs)"
  proof -
    have "map site_cells (rows df5) = filter Q' (map site_cells (rows df4))"
      by (simp add: df5_def QQ filter_map)
    also have "\<dots> = map T (filter (Q' \<circ> T) xs)"
      by (simp add: t4 filter_map)
    also have "Q' \<circ> T = (\<lambda>x. site_of (dict_items x) \<noteq> None)"
      by (rule ext) (simp add: Q'_def T_def LA_def LO_def nm_def resolved_triple)
    finally show ?thesis .
  qed
  define df6 where "df6 = (if ''publishtime'' \<in> set (columns df5)
                          then rename_column ''publishtime'' ''datacreationdate'' df5 else df5)"
  have t6: "map site_cells (rows df6) = map site_cells (rows df5)"
    by (simp add: df6_def rows_rename_column site_cells_def map_of_rename comp_def)
  have keys6: "\<forall>r \<in> set (rows df6). map_of r ''latitude'' \<noteq> None \<and> map_of r ''longitude'' \<noteq> None"
  proof
    fix r assume "r \<in> set (rows df6)"
    then have "site_cells r \<in> set (map site_cells (rows df6))" by simp
    then have "site_cells r \<in> set (map T xs)" by (auto simp: t6 t5)
    then show "map_of r ''latitude'' \<noteq> None \<and> map_of r ''longitude'' \<noteq> None"
      by (auto simp: T_def site_cells_def)
  qed
  from add_distance_rows [OF keys6, of L] obtain g where
    AD: "add_distance L df6 =
           Inr \<lparr>columns = add_key (columns df6) ''distance_to_taipei'',
                rows = map (\<lambda>r. row_set ''distance_to_taipei'' (g r) r) (rows df6)\<rparr>"
    by blast
  define df where "df = \<lparr>columns = add_key (columns df6) ''distance_to_taipei'',
                rows = map (\<lambda>r. row_set ''distance_to_taipei'' (g r) r) (rows df6)\<rparr>"
  have t7: "map site_cells (rows df) = map site_cells (rows df6)"
    by (simp add: df_def site_cells_row_set comp_def)
  have run: "process_data L s = (Inr (Some df), logger INFO (Processed (length (rows df))) s)"
    using d(2)
    by (simp add: process_data_def d(1) D Let_def avail_def [symmetric] df1_def [symmetric]
        A1 A2 C DN df6_def [symmetric] AD df_def [symmetric])
  have "map T (filter (\<lambda>x. site_of (dict_items x) \<noteq> None) xs) =
        map resolved_cells (List.map_filter (\<lambda>x. site_of (dict_items x)) xs)"
    by (auto simp: List.map_filter_def T_def LA_def LO_def nm_def resolved_expected)
  with run t7 t6 t5 show ?thesis by auto
qed


lemma process_data_no_sitename:
  assumes d: "data s = Some (JArr xs)" "xs \<noteq> []" "list_all is_dict xs"
    and site: "''sitename'' \<notin> (\<Union>x \<in> set xs. fst ` set (dict_items x))"
  shows "process_data L s = (Inl KeyError, s)"
proof -
  have "''sitename'' \<notin> set (union_keys (map dict_items xs))"
    using site by (simp add: set_union_keys)
  then show ?thesis
    using d by (simp add: process_data_def DataFrame_def Let_def attach_coordinate_eq take_columns_def)
qed

lemma process_data_unhashable:
  assumes d: "data s = Some (JArr xs)" "xs \<noteq> []" "list_all is_dict xs"
    and site: "''sitename'' \<in> (\<Union>x \<in> set xs. fst ` set (dict_items x))"
    and hash: "\<not> list_all (\<lambda>x. hashable (raw_cell (dict_items x) ''sitename'')) xs"
  shows "process_data L s = (Inl TypeError, s)"
proof -
  define cols0 where "cols0 = union_keys (map dict_items xs)"
  define avail where "avail = filter (\<lambda>col. col \<in> set cols0) columns_to_keep"
  have site0: "''sitename'' \<in> set cols0"
    using site by (simp add: cols0_def set_union_keys)
  have site1: "''sitename'' \<in> set avail"
    using sitename_available [OF site0] by (simp add: avail_def)
  have nm1: "cell_at (map (\<lambda>c. (c, cell_at (row_of_dict cols0 kvs) c)) avail) ''sitename'' =
             raw_cell kvs ''sitename''" for kvs
    using site0 site1 by (simp add: cell_at_def map_of_tabulate row_of_dict_def)
  have kept: "''sitename'' \<in> set columns_to_keep"
    by (simp add: columns_to_keep_def)
  show ?thesis
    using d site1 site0 kept hash
    by (simp add: process_data_def DataFrame_def Let_def attach_coordinate_eq take_columns_def
        cols0_def [symmetric] avail_def [symmetric] list_all_iff nm1)
qed

lemma process_data_fst_cong:
  "data s = data t \<Longrightarrow> fst (process_data L s) = fst (process_data L t)"
  by (simp add: process_data_def split: option.splits sum.splits)

lemma process_data_state:
  "data (snd (process_data L s)) = data s"
  "aqi_map (snd (process_data L s)) = aqi_map s"
  "csv_file (snd (process_data L s)) = csv_file s"
  "html_file (snd (process_data L s)) = html_file s"
  by (simp_all add: process_data_def logger_def split: option.splits sum.splits)

lemma add_markers_None:
  "(add_markers rs m = (None, m')) =
   (\<exists>mks. map marker_of_row rs = map Inr mks \<and> m' = m\<lparr>children := children m @ map CircleMarker mks\<rparr>)"
proof (induction rs arbitrary: m)
  case Nil
  then show ?case by auto
next
  case (Cons r rs)
  show ?case
  proof (cases "marker_of_row r")
    case (Inl e)
    then show ?thesis by (auto simp: map_eq_Cons_conv)
  next
    case (Inr mk)
    then show ?thesis
      by (simp add: Cons.IH map_eq_Cons_conv) (auto simp: Cons_eq_map_conv)
  qed
qed

lemma circle_markers_append:
  "circle_markers (map CircleMarker mks @ [StationMarker p, Legend]) = mks"
  by (induction mks) auto

lemma create_map_Some:
  assumes "create_map df s = (Inr (Some m), s')"
  shows "\<not> empty_df df \<and> aqi_map s' = Some m \<and> data s' = data s \<and>
         (\<exists>mks. map marker_of_row (rows df) = map Inr mks \<and>
                children m = map CircleMarker mks @ [StationMarker taipei_station, Legend])"
  using assms
  by (auto simp: create_map_def Let_def add_markers_None logger_def
      split: if_splits sum.splits prod.splits option.splits)

lemma create_map_None_iff: "(fst (create_map df s) = Inr None) = empty_df df"
  by (auto simp: create_map_def Let_def split: sum.splits prod.splits option.splits)


lemma station_daan: "station_lookup name_daan = Some (25.0263, 121.5438)"
  by (simp add: station_lookup_def station_coordinates_def name_daan_def)

lemma station_unknown: "station_lookup name_unknown = None"
  by (simp add: station_lookup_def station_coordinates_def name_unknown_def)




lemma fetch_state:
  "aqi_map (snd (fetch_aqi_data resp s)) = aqi_map s"
  "csv_file (snd (fetch_aqi_data resp s)) = csv_file s"
  by (simp_all add: fetch_aqi_data_def logger_def Let_def
      split: response.splits option.splits json.splits sum.splits bool.splits)

lemma create_map_state:
  "data (snd (create_map df s)) = data s"
  "csv_file (snd (create_map df s)) = csv_file s"
  by (simp_all add: create_map_def logger_def Let_def split: sum.splits prod.splits option.splits)

lemma save_map_state:
  "data (snd (save_map E s)) = data s"
  "aqi_map (snd (save_map E s)) = aqi_map s"
  "csv_file (snd (save_map E s)) = csv_file s"
  by (simp_all add: save_map_def logger_def attempt_def Let_def split: option.splits)

lemma save_data_state:
  "data (snd (save_data L E s)) = data s"
  "aqi_map (snd (save_data L E s)) = aqi_map s"
proof -
  have a: "data (attempt Makedirs s) = data s" "aqi_map (attempt Makedirs s) = aqi_map s"
    by (simp_all add: attempt_def)
  show "data (snd (save_data L E s)) = data s"
    using process_data_state(1) [of L "attempt Makedirs s"] a
    by (auto simp: save_data_def logger_def attempt_def Let_def
        split: option.splits sum.splits prod.splits)
  show "aqi_map (snd (save_data L E s)) = aqi_map s"
    using process_data_state(2) [of L "attempt Makedirs s"] a
    by (auto simp: save_data_def logger_def attempt_def Let_def
        split: option.splits sum.splits prod.splits)
qed

lemma save_data_csv:
  "\<exists>df. (fst (process_data L s) = Inr (Some df) \<and> csv_file (snd (save_data L E s)) = Some df
          \<and> fst (save_data L E s) = Inr (Some True)) \<or>
        (csv_file (snd (save_data L E s)) = csv_file s \<and> fst (save_data L E s) \<noteq> Inr (Some True))"
proof -
  have c: "fst (process_data L (attempt Makedirs s)) = fst (process_data L s)"
    by (rule process_data_fst_cong) (simp add: attempt_def)
  have e: "csv_file (snd (process_data L (attempt Makedirs s))) = csv_file s"
    by (simp add: process_data_state attempt_def)
  show ?thesis
    using c e
    by (auto simp: save_data_def logger_def attempt_def Let_def
        split: option.splits sum.splits prod.splits)
qed




lemma save_data_True:
  assumes "save_data L E s = (Inr (Some True), s')"
  shows "\<exists>df. fst (process_data L s) = Inr (Some df) \<and> csv_file s' = Some df"
  using save_data_csv [of L s E] assms by auto

lemma marker_null_aqi:
  assumes "map_of r ''aqi'' = Some c" and "isna c" and "marker_of_row r = Inr mk"
  shows "radius mk = 8 \<and> fill_color mk = ''#00E400'' \<and> popup_aqi mk = 0 \<and>
         tooltip_aqi mk = 0 \<and> popup_color mk = ''#00E400'' \<and> popup_level mk = level_good"
  using assms
  by (auto simp: marker_of_row_def row_get_def aqi_value_of_def bind_err_Inr_iff Let_def
      get_aqi_color_def get_aqi_level_def split: option.splits)

lemma create_map_markers:
  assumes "create_map df s = (Inr (Some m), s')"
  shows "map marker_of_row (rows df) = map Inr (circle_markers (children m))"
  using create_map_Some [OF assms] by (auto simp: circle_markers_append)

lemma run_True:
  assumes "run L resp E s0 = (Inr True, s')"
  shows "\<exists>s1 df s2 m s3 s4 s5 b c.
           fetch_aqi_data resp (logger INFO RunStart s0) = (Inr True, s1) \<and>
           process_data L s1 = (Inr (Some df), s2) \<and> \<not> empty_df df \<and>
           create_map df s2 = (Inr (Some m), s3) \<and>
           save_map E s3 = (Inr b, s4) \<and>
           save_data L E s4 = (Inr c, s5) \<and>
           s' = logger INFO RunDone s5"
  using assms
  by (auto simp: run_def Let_def split: prod.splits sum.splits if_splits option.splits)


lemma marker_location:
  assumes "marker_of_row r = Inr mk" and "site_cells r = resolved_cells p"
  shows "location mk = resolved_location p"
  using assms
  by (cases p)
     (auto simp: marker_of_row_def row_get_def bind_err_Inr_iff Let_def site_cells_def
        resolved_cells_def resolved_location_def split: option.splits)

lemma map_of_fst_image: "map_of kvs k = Some v \<Longrightarrow> k \<in> fst ` set kvs"
  by (induction kvs) (auto split: if_splits)

lemma process_data_unresolved_single:
  assumes "data s = Some (JArr [JObj rec])"
    and "map_of rec ''sitename'' = Some (JStr name)"
    and "station_lookup name = None"
  shows "\<exists>df. process_data L s = (Inr (Some df), logger INFO (Processed 0) s) \<and> rows df = []"
proof -
  have site: "''sitename'' \<in> (\<Union>x \<in> set [JObj rec]. fst ` set (dict_items x))"
    using map_of_fst_image [OF assms(2)] by simp
  have hash: "list_all (\<lambda>x. hashable (raw_cell (dict_items x) ''sitename'')) [JObj rec]"
    using assms(2) by (simp add: raw_cell_def)
  have none: "site_of rec = None"
    using assms(2,3) by (simp add: site_of_def)
  from process_data_rows [OF assms(1) _ _ site hash, of L] obtain df where
    df: "process_data L s = (Inr (Some df), logger INFO (Processed (length (rows df))) s)"
        "map site_cells (rows df) =
           map resolved_cells (List.map_filter (\<lambda>x. site_of (dict_items x)) [JObj rec])"
    by auto
  from df(2) none have "rows df = []"
    by (simp add: List.map_filter_def)
  with df(1) show ?thesis by auto
qed
section \<open>The claims\<close>

text \<open>
  C1 (the code departs from the claim). The claim: for every input, also raw records
  with an absent site-name field, no exception leaves \<open>run\<close>. For the response body
  \<^verbatim>\<open>[{"county": ..., "aqi": "80"}]\<close>, a record without \<^verbatim>\<open>sitename\<close>, the frame has no
  \<^verbatim>\<open>sitename\<close> column, \<^verbatim>\<open>df['sitename']\<close> raises \<^verbatim>\<open>KeyError\<close> in \<^verbatim>\<open>process_data\<close>,
  and \<open>run\<close>, which has no handler, lets it pass: whatever the libraries, the file
  system and the state are.
\<close>

theorem run_missing_sitename_raises:
  "fst (run L (Response 200 (Some (JArr [JObj record_no_sitename]))) E s) = Inl KeyError"
  by (simp add: run_def fetch_aqi_data_def logger_def Let_def record_no_sitename_def
      process_data_no_sitename)

text \<open>
  C2. The classifier partitions the numbers exactly at 50 and 100: up to 50 the colour
  is \<^verbatim>\<open>#00E400\<close> and the level Good, above 50 and up to 100 \<^verbatim>\<open>#FFFF00\<close> and Moderate,
  above 100 \<^verbatim>\<open>#FF0000\<close> and Unhealthy. Both functions are the specification's band
  followed by the band's colour and label; the band of 50 is Good, of 51 and of 100
  Moderate, of 101 Unhealthy; and the band is monotonic in the value.
\<close>

theorem aqi_band_partition:
  "(v \<le> 50 \<longrightarrow> get_aqi_color v = ''#00E400'' \<and> get_aqi_level v = level_good) \<and>
   (50 < v \<and> v \<le> 100 \<longrightarrow> get_aqi_color v = ''#FFFF00'' \<and> get_aqi_level v = level_moderate) \<and>
   (100 < v \<longrightarrow> get_aqi_color v = ''#FF0000'' \<and> get_aqi_level v = level_unhealthy) \<and>
   get_aqi_color v = band_color (spec_AQIBand v) \<and>
   get_aqi_level v = band_label (spec_AQIBand v) \<and>
   spec_AQIBand 50 = Good \<and> spec_AQIBand 51 = Moderate \<and>
   spec_AQIBand 100 = Moderate \<and> spec_AQIBand 101 = Unhealthy \<and>
   (v \<le> w \<longrightarrow> band_rank (spec_AQIBand v) \<le> band_rank (spec_AQIBand w))"
  by (simp add: get_aqi_color_def get_aqi_level_def spec_AQIBand_def)

theorem aqi_band_partition_witness:
  "get_aqi_color 75 = ''#FFFF00'' \<and> get_aqi_level 75 = level_moderate \<and>
   get_aqi_color 50 = ''#00E400'' \<and> get_aqi_level 50 = level_good \<and>
   get_aqi_color 101 = ''#FF0000'' \<and> get_aqi_level 101 = level_unhealthy \<and>
   band_rank (spec_AQIBand 75) \<le> band_rank (spec_AQIBand 101)"
  using aqi_band_partition [of 75 101] aqi_band_partition [of 50 50]
    aqi_band_partition [of 101 101]
  by simp

text \<open>
  C3. Whenever \<open>process_data\<close> returns a frame for a list of raw records, the rows of
  the frame are, in input order, exactly the records whose site name is a key of the
  coordinate table, each with the table's latitude and longitude as numbers (so no
  record with an unresolved name survives and no surviving coordinate is null). The map
  built from the frame has one circle marker per such record, at its coordinates and in
  the same order, and the CSV file that \<open>save_data\<close> writes is that frame.
\<close>

theorem process_data_keeps_resolved_stations:
  assumes "data s = Some (JArr (map JObj recs))"
    and "fst (process_data L s) = Inr (Some df)"
  shows "map site_cells (rows df) = map resolved_cells (List.map_filter site_of recs) \<and>
         (\<forall>s1 m s2. create_map df s1 = (Inr (Some m), s2) \<longrightarrow>
            map location (circle_markers (children m)) =
              map resolved_location (List.map_filter site_of recs)) \<and>
         (\<forall>E s'. save_data L E s = (Inr (Some True), s') \<longrightarrow> csv_file s' = Some df)"
proof -
  let ?xs = "map JObj recs"
  have dicts: "list_all is_dict ?xs"
    by (simp add: list_all_iff)
  have nonempty: "?xs \<noteq> []"
    using assms by (auto simp: process_data_def)
  have site: "''sitename'' \<in> (\<Union>x \<in> set ?xs. fst ` set (dict_items x))"
  proof (rule ccontr)
    assume "\<not> ?thesis"
    from process_data_no_sitename [OF assms(1) nonempty dicts this, of L] assms(2)
    show False by simp
  qed
  have hash: "list_all (\<lambda>x. hashable (raw_cell (dict_items x) ''sitename'')) ?xs"
  proof (rule ccontr)
    assume "\<not> ?thesis"
    from process_data_unhashable [OF assms(1) nonempty dicts site this, of L] assms(2)
    show False by simp
  qed
  from process_data_rows [OF assms(1) nonempty dicts site hash, of L] assms(2)
  have "map site_cells (rows df) =
        map resolved_cells (List.map_filter (\<lambda>x. site_of (dict_items x)) ?xs)"
    by auto
  also have "List.map_filter (\<lambda>x. site_of (dict_items x)) ?xs = List.map_filter site_of recs"
    by (simp add: List.map_filter_def filter_map comp_def)
  finally have cells: "map site_cells (rows df) = map resolved_cells (List.map_filter site_of recs)" .
  have markers: "map location (circle_markers (children m)) =
                 map resolved_location (List.map_filter site_of recs)"
    if "create_map df s1 = (Inr (Some m), s2)" for s1 m s2
  proof -
    from create_map_markers [OF that]
    have mk: "map marker_of_row (rows df) = map Inr (circle_markers (children m))" .
    show ?thesis
    proof (rule nth_equalityI)
      show "length (map location (circle_markers (children m))) =
            length (map resolved_location (List.map_filter site_of recs))"
        using mk cells by (metis length_map)
    next
      fix i assume "i < length (map location (circle_markers (children m)))"
      then have i: "i < length (circle_markers (children m))" by simp
      then have ir: "i < length (rows df)" using mk by (metis length_map)
      then have ip: "i < length (List.map_filter site_of recs)" using cells by (metis length_map)
      have "marker_of_row (rows df ! i) = Inr (circle_markers (children m) ! i)"
        using mk i ir by (metis nth_map)
      moreover have "site_cells (rows df ! i) = resolved_cells (List.map_filter site_of recs ! i)"
        using cells ir ip by (metis nth_map)
      ultimately have "location (circle_markers (children m) ! i) =
                       resolved_location (List.map_filter site_of recs ! i)"
        by (rule marker_location)
      then show "map location (circle_markers (children m)) ! i =
                 map resolved_location (List.map_filter site_of recs) ! i"
        using i ip by simp
    qed
  qed
  have csv: "csv_file s' = Some df" if "save_data L E s = (Inr (Some True), s')" for E s'
    using save_data_True [OF that] assms(2) by auto
  from cells markers csv show ?thesis by blast
qed

theorem process_data_keeps_resolved_stations_witness:
  "map site_cells (rows enriched_daan) =
     [(Some (Py (JStr name_daan)), Some (Py (JNum 25.0263)), Some (Py (JNum 121.5438)))] \<and>
   fst (process_data sample_libs
          (init_state\<lparr>data := Some (JArr (map JObj [record_daan, record_unknown]))\<rparr>)) =
     Inr (Some enriched_daan)"
proof -
  let ?s = "init_state\<lparr>data := Some (JArr (map JObj [record_daan, record_unknown]))\<rparr>"
  have h1: "data ?s = Some (JArr (map JObj [record_daan, record_unknown]))"
    by simp
  have h2: "fst (process_data sample_libs ?s) = Inr (Some enriched_daan)"
    by code_simp
  have sites: "List.map_filter site_of [record_daan, record_unknown] =
               [(name_daan, 25.0263, 121.5438)]"
    by code_simp
  have "map site_cells (rows enriched_daan) =
        map resolved_cells (List.map_filter site_of [record_daan, record_unknown])"
    by (rule process_data_keeps_resolved_stations [OF h1 h2, THEN conjunct1])
  then have "map site_cells (rows enriched_daan) =
        [(Some (Py (JStr name_daan)), Some (Py (JNum 25.0263)), Some (Py (JNum 121.5438)))]"
    unfolding sites by (simp add: resolved_cells_def)
  with h2 show ?thesis
    by simp
qed

text \<open>
  C4. The coercion step of the normalization (the loop over the numeric columns
  \<^verbatim>\<open>aqi\<close>, \<^verbatim>\<open>pm25\<close>, \<^verbatim>\<open>pm10\<close>, \<^verbatim>\<open>o3\<close>, \<^verbatim>\<open>no2\<close>, \<^verbatim>\<open>so2\<close>, \<^verbatim>\<open>co\<close>, \<^verbatim>\<open>latitude\<close>,
  \<^verbatim>\<open>longitude\<close>) never raises, for every frame and every library: it returns a frame
  with the same columns and as many rows, in which each cell of a numeric column that
  the frame has is the number the old cell is read as, or null when the old cell is
  not parseable as a number; every other cell is unchanged.
\<close>

theorem coercion_is_total:
  "\<exists>df'. coerce_columns L numeric_columns df = Inr df' \<and>
         columns df' = columns df \<and> length (rows df') = length (rows df) \<and>
         (\<forall>i < length (rows df). \<forall>c.
            map_of (rows df' ! i) c =
              (if c \<in> set numeric_columns \<and> c \<in> set (columns df)
               then Some (case number_read L (cell_at (rows df ! i) c) of
                            None \<Rightarrow> NaN
                          | Some x \<Rightarrow> Py (JNum x))
               else map_of (rows df ! i) c))"
  using coerce_columns_rows [of L numeric_columns df] unfolding coerced_def .

theorem coercion_is_total_witness:
  "\<exists>df'. coerce_columns sample_libs numeric_columns mixed_frame = Inr df' \<and>
         map_of (rows df' ! 0) ''aqi'' = Some NaN \<and>
         map_of (rows df' ! 1) ''aqi'' = Some (Py (JNum 45)) \<and>
         map_of (rows df' ! 0) ''sitename'' = Some (Py (JStr name_daan))"
proof -
  from coercion_is_total [of sample_libs mixed_frame] obtain df' where
    r: "coerce_columns sample_libs numeric_columns mixed_frame = Inr df'"
    and c: "\<forall>i < length (rows mixed_frame). \<forall>c.
            map_of (rows df' ! i) c =
              (if c \<in> set numeric_columns \<and> c \<in> set (columns mixed_frame)
               then Some (case number_read sample_libs (cell_at (rows mixed_frame ! i) c) of
                            None \<Rightarrow> NaN
                          | Some x \<Rightarrow> Py (JNum x))
               else map_of (rows mixed_frame ! i) c)"
    by blast
  have "map_of (rows df' ! 0) ''aqi'' = Some NaN"
    using c [rule_format, of 0 "''aqi''"]
    by (simp add: mixed_frame_def numeric_columns_def number_read_def cell_at_def sample_libs_def)
  moreover have "map_of (rows df' ! 1) ''aqi'' = Some (Py (JNum 45))"
    using c [rule_format, of 1 "''aqi''"]
    by (simp add: mixed_frame_def numeric_columns_def number_read_def cell_at_def sample_libs_def)
  moreover have "map_of (rows df' ! 0) ''sitename'' = Some (Py (JStr name_daan))"
    using c [rule_format, of 0 "''sitename''"]
    by (simp add: mixed_frame_def numeric_columns_def)
  ultimately show ?thesis
    using r by blast
qed

text \<open>
  C5 (amended). As stated the claim fails: the JSON body \<^verbatim>\<open>5\<close> is neither of the two
  shapes and produces no failure signal, since \<^verbatim>\<open>'records' in 5\<close> raises a
  \<^verbatim>\<open>TypeError\<close> that no handler of \<^verbatim>\<open>fetch_aqi_data\<close> catches; and the object
  \<^verbatim>\<open>{"records": "x"}\<close>, whose \<^verbatim>\<open>records\<close> member is no array, is accepted.
\<close>

theorem fetch_other_shape_counterexample:
  "fst (fetch_aqi_data (Response 200 (Some (JNum 5))) init_state) = Inl TypeError \<and>
   fst (fetch_aqi_data (Response 200 (Some (JObj [(''records'', JStr ''x'')]))) init_state) =
     Inr True"
  by (simp add: fetch_aqi_data_def logger_def Let_def codepoints_def)

text \<open>
  C5, what holds: for a response whose status is no 4xx or 5xx, a bare array and an
  object whose \<^verbatim>\<open>records\<close> member is that array are both accepted and leave the same
  state with the array as \<^verbatim>\<open>self.data\<close>, so the normalizer's output is identical; an
  object with no \<^verbatim>\<open>records\<close> member produces the failure signal and leaves
  \<^verbatim>\<open>self.data\<close> as it was.
\<close>

theorem fetch_shapes_agree:
  assumes "\<not> (400 \<le> code \<and> code < 600)"
  shows "(map_of kvs ''records'' = Some (JArr recs) \<longrightarrow>
            fetch_aqi_data (Response code (Some (JObj kvs))) s =
              fetch_aqi_data (Response code (Some (JArr recs))) s \<and>
            fst (fetch_aqi_data (Response code (Some (JArr recs))) s) = Inr True \<and>
            data (snd (fetch_aqi_data (Response code (Some (JArr recs))) s)) = Some (JArr recs) \<and>
            process_data L (snd (fetch_aqi_data (Response code (Some (JObj kvs))) s)) =
              process_data L (snd (fetch_aqi_data (Response code (Some (JArr recs))) s))) \<and>
         (map_of kvs ''records'' = None \<longrightarrow>
            fst (fetch_aqi_data (Response code (Some (JObj kvs))) s) = Inr False \<and>
            data (snd (fetch_aqi_data (Response code (Some (JObj kvs))) s)) = data s)"
proof (intro conjI impI)
  have c: "(400 \<le> code \<and> code < 600) = False"
    using assms by simp
  assume r: "map_of kvs ''records'' = Some (JArr recs)"
  then have k: "''records'' \<in> set (map fst kvs)"
    using map_of_fst_image [OF r] by simp
  show "fetch_aqi_data (Response code (Some (JObj kvs))) s =
          fetch_aqi_data (Response code (Some (JArr recs))) s"
    using r k by (simp add: fetch_aqi_data_def logger_def Let_def c)
  then show "process_data L (snd (fetch_aqi_data (Response code (Some (JObj kvs))) s)) =
          process_data L (snd (fetch_aqi_data (Response code (Some (JArr recs))) s))"
    by simp
  show "fst (fetch_aqi_data (Response code (Some (JArr recs))) s) = Inr True"
    by (simp add: fetch_aqi_data_def logger_def Let_def c)
  show "data (snd (fetch_aqi_data (Response code (Some (JArr recs))) s)) = Some (JArr recs)"
    by (simp add: fetch_aqi_data_def logger_def Let_def c)
next
  have c: "(400 \<le> code \<and> code < 600) = False"
    using assms by simp
  assume n: "map_of kvs ''records'' = None"
  then have k: "''records'' \<notin> set (map fst kvs)"
    by (simp add: map_of_eq_None_iff)
  show "fst (fetch_aqi_data (Response code (Some (JObj kvs))) s) = Inr False"
    using k by (simp add: fetch_aqi_data_def logger_def Let_def c)
  show "data (snd (fetch_aqi_data (Response code (Some (JObj kvs))) s)) = data s"
    using k by (simp add: fetch_aqi_data_def logger_def Let_def c)
qed

theorem fetch_shapes_agree_witness:
  "fetch_aqi_data (Response 200 (Some (JObj [(''records'', JArr [JObj record_daan])]))) init_state =
     fetch_aqi_data (Response 200 (Some (JArr [JObj record_daan]))) init_state \<and>
   fst (fetch_aqi_data (Response 200 (Some (JArr [JObj record_daan]))) init_state) = Inr True \<and>
   process_data sample_libs
     (snd (fetch_aqi_data (Response 200 (Some (JObj [(''records'', JArr [JObj record_daan])])))
            init_state)) =
   process_data sample_libs
     (snd (fetch_aqi_data (Response 200 (Some (JArr [JObj record_daan]))) init_state)) \<and>
   fst (fetch_aqi_data (Response 200 (Some (JObj [(''status'', JStr ''error'')]))) init_state) =
     Inr False"
proof -
  have c: "\<not> (400 \<le> (200::nat) \<and> (200::nat) < 600)"
    by simp
  from fetch_shapes_agree [OF c, of "[(''records'', JArr [JObj record_daan])]" "[JObj record_daan]"
      init_state sample_libs]
    fetch_shapes_agree [OF c, of "[(''status'', JStr ''error'')]" "[]" init_state sample_libs]
  show ?thesis by simp
qed

text \<open>
  C6. In every run that succeeds, the map and the CSV file come from the same enriched
  frame: each of its rows has its circle marker, in order, and for a row whose AQI cell
  is null the marker is sized and coloured as for the AQI 0 (radius \<^verbatim>\<open>8 + 0 / 50\<close>,
  fill colour of 0, AQI 0 and the level of 0 in the popup), while the CSV file, when it
  is written in this run, is the frame itself, with the null cell in it.
\<close>

theorem null_aqi_rendered_zero_persisted_null:
  assumes "run L resp E s0 = (Inr True, s')"
  shows "\<exists>df m. fst (process_data L s') = Inr (Some df) \<and> aqi_map s' = Some m \<and>
           length (circle_markers (children m)) = length (rows df) \<and>
           (\<forall>i < length (rows df). \<forall>c. map_of (rows df ! i) ''aqi'' = Some c \<and> isna c \<longrightarrow>
              radius (circle_markers (children m) ! i) = 8 + 0 / 50 \<and>
              fill_color (circle_markers (children m) ! i) = get_aqi_color 0 \<and>
              popup_aqi (circle_markers (children m) ! i) = 0 \<and>
              popup_level (circle_markers (children m) ! i) = get_aqi_level 0) \<and>
           (csv_file s' = Some df \<or> csv_file s' = csv_file s0) \<and>
           (makedirs_csv E = None \<and> to_csv E = None \<longrightarrow> csv_file s' = Some df)"
proof -
  from run_True [OF assms] obtain s1 df s2 m s3 s4 s5 b c where
    f: "fetch_aqi_data resp (logger INFO RunStart s0) = (Inr True, s1)" and
    p: "process_data L s1 = (Inr (Some df), s2)" and
    cm: "create_map df s2 = (Inr (Some m), s3)" and
    sm: "save_map E s3 = (Inr b, s4)" and
    sd: "save_data L E s4 = (Inr c, s5)" and
    s': "s' = logger INFO RunDone s5"
    by blast
  have d2: "data s2 = data s1" using process_data_state(1) [of L s1] p by simp
  have d3: "data s3 = data s2" using create_map_state(1) [of df s2] cm by simp
  have d4: "data s4 = data s3" using save_map_state(1) [of E s3] sm by simp
  have d5: "data s5 = data s4" using save_data_state(1) [of L E s4] sd by simp
  have d': "data s' = data s1" by (simp add: s' logger_def d5 d4 d3 d2)
  have pd: "fst (process_data L s) = Inr (Some df)" if "data s = data s1" for s
    using process_data_fst_cong [OF that, of L] p by simp
  have m3: "aqi_map s3 = Some m" using create_map_Some [OF cm] by simp
  have m4: "aqi_map s4 = aqi_map s3" using save_map_state(2) [of E s3] sm by simp
  have m5: "aqi_map s5 = aqi_map s4" using save_data_state(2) [of L E s4] sd by simp
  have m': "aqi_map s' = Some m" by (simp add: s' logger_def m5 m4 m3)
  have mk: "map marker_of_row (rows df) = map Inr (circle_markers (children m))"
    by (rule create_map_markers [OF cm])
  then have len: "length (circle_markers (children m)) = length (rows df)"
    by (metis length_map)
  have null: "radius (circle_markers (children m) ! i) = 8 + 0 / 50 \<and>
              fill_color (circle_markers (children m) ! i) = get_aqi_color 0 \<and>
              popup_aqi (circle_markers (children m) ! i) = 0 \<and>
              popup_level (circle_markers (children m) ! i) = get_aqi_level 0"
    if "i < length (rows df)" "map_of (rows df ! i) ''aqi'' = Some c" "isna c" for i c
  proof -
    have "marker_of_row (rows df ! i) = Inr (circle_markers (children m) ! i)"
      using that(1) len mk by (metis nth_map)
    from marker_null_aqi [OF that(2,3) this] show ?thesis
      by (simp add: get_aqi_color_def get_aqi_level_def)
  qed
  have c0: "csv_file s1 = csv_file s0"
    using fetch_state(2) [of resp "logger INFO RunStart s0"] f by (simp add: logger_def)
  have c2: "csv_file s2 = csv_file s1" using process_data_state(3) [of L s1] p by simp
  have c3: "csv_file s3 = csv_file s2" using create_map_state(2) [of df s2] cm by simp
  have c4: "csv_file s4 = csv_file s3" using save_map_state(3) [of E s3] sm by simp
  have pd4: "fst (process_data L s4) = Inr (Some df)"
    by (rule pd) (simp add: d4 d3 d2)
  have csv: "csv_file s5 = Some df \<or> csv_file s5 = csv_file s4"
    using save_data_csv [of L s4 E] sd pd4 by auto
  have written: "csv_file s5 = Some df" if "makedirs_csv E = None" "to_csv E = None"
  proof -
    have "fst (process_data L (attempt Makedirs s4)) = Inr (Some df)"
      by (rule pd) (simp add: attempt_def d4 d3 d2)
    moreover have "data s4 \<noteq> None"
      using pd4 by (cases "data s4") (simp_all add: process_data_def)
    ultimately show ?thesis
      using sd that
      by (auto simp: save_data_def Let_def logger_def attempt_def
          split: option.splits sum.splits prod.splits)
  qed
  show ?thesis
    using pd [OF d'] m' len null csv written
    by (intro exI [of _ df] exI [of _ m]) (auto simp: s' logger_def c4 c3 c2 c0)
qed


theorem null_aqi_rendered_zero_persisted_null_witness:
  "\<exists>m. fst (process_data sample_libs
             (snd (run sample_libs (Response 200 (Some (JArr [JObj record_no_aqi])))
                     sample_env init_state))) = Inr (Some enriched_no_aqi) \<and>
       map_of (rows enriched_no_aqi ! 0) ''aqi'' = Some NaN \<and>
       aqi_map (snd (run sample_libs (Response 200 (Some (JArr [JObj record_no_aqi])))
                       sample_env init_state)) = Some m \<and>
       radius (circle_markers (children m) ! 0) = 8 \<and>
       fill_color (circle_markers (children m) ! 0) = ''#00E400'' \<and>
       csv_file (snd (run sample_libs (Response 200 (Some (JArr [JObj record_no_aqi])))
                        sample_env init_state)) = Some enriched_no_aqi"
proof -
  let ?r = "run sample_libs (Response 200 (Some (JArr [JObj record_no_aqi]))) sample_env init_state"
  have "fst ?r = Inr True"
    by code_simp
  then have h: "?r = (Inr True, snd ?r)"
    by (metis prod.collapse)
  have e: "fst (process_data sample_libs (snd ?r)) = Inr (Some enriched_no_aqi)"
    by code_simp
  have n: "map_of (rows enriched_no_aqi ! 0) ''aqi'' = Some NaN" "isna NaN"
          "(0::nat) < length (rows enriched_no_aqi)"
    by (simp_all add: enriched_no_aqi_def isna_def)
  have w: "makedirs_csv sample_env = None \<and> to_csv sample_env = None"
    by (simp add: sample_env_def)
  from null_aqi_rendered_zero_persisted_null [OF h] e n w show ?thesis
    by (auto simp: get_aqi_color_def)
qed

text \<open>
  C7. \<open>create_map\<close> returns no map exactly when the frame is empty, and then it only logs
  the error: \<^verbatim>\<open>self.map\<close> is not touched. For an input whose only record names a
  station that is no key of the coordinate table, \<open>process_data\<close> returns a frame with
  no rows, \<open>create_map\<close> on that frame reports the failure, and \<open>run\<close> returns
  \<^verbatim>\<open>False\<close> with no map built and no map file written.
\<close>

theorem create_map_fails_iff_empty:
  "(fst (create_map df s) = Inr None \<longleftrightarrow> empty_df df) \<and>
   (empty_df df \<longrightarrow> snd (create_map df s) = logger ERROR NoDataForMap s) \<and>
   (data s = Some (JArr [JObj rec]) \<and> map_of rec ''sitename'' = Some (JStr name) \<and>
    station_lookup name = None \<longrightarrow>
      (\<exists>df'. fst (process_data L s) = Inr (Some df') \<and> rows df' = [] \<and>
             fst (create_map df' s1) = Inr None \<and>
             aqi_map (snd (create_map df' s1)) = aqi_map s1)) \<and>
   (map_of rec ''sitename'' = Some (JStr name) \<and> station_lookup name = None \<longrightarrow>
      fst (run L (Response 200 (Some (JArr [JObj rec]))) E s0) = Inr False \<and>
      aqi_map (snd (run L (Response 200 (Some (JArr [JObj rec]))) E s0)) = aqi_map s0 \<and>
      html_file (snd (run L (Response 200 (Some (JArr [JObj rec]))) E s0)) = html_file s0)"
proof (intro conjI impI)
  show "fst (create_map df s) = Inr None \<longleftrightarrow> empty_df df"
    by (rule create_map_None_iff)
  show "snd (create_map df s) = logger ERROR NoDataForMap s" if "empty_df df"
    using that by (simp add: create_map_def)
next
  assume a: "data s = Some (JArr [JObj rec]) \<and> map_of rec ''sitename'' = Some (JStr name) \<and>
             station_lookup name = None"
  then obtain df' where
    df': "process_data L s = (Inr (Some df'), logger INFO (Processed 0) s)" "rows df' = []"
    using process_data_unresolved_single [of s rec name L] by blast
  have "empty_df df'"
    using df'(2) by (simp add: empty_df_def)
  then have "fst (create_map df' s1) = Inr None \<and> aqi_map (snd (create_map df' s1)) = aqi_map s1"
    by (simp add: create_map_def logger_def)
  with df' show "\<exists>df'. fst (process_data L s) = Inr (Some df') \<and> rows df' = [] \<and>
             fst (create_map df' s1) = Inr None \<and>
             aqi_map (snd (create_map df' s1)) = aqi_map s1"
    by auto
next
  assume a: "map_of rec ''sitename'' = Some (JStr name) \<and> station_lookup name = None"
  define t where "t = logger INFO (Fetched 1)
                        (logger INFO FetchStart (logger INFO RunStart s0)\<lparr>data := Some (JArr [JObj rec])\<rparr>)"
  have f: "fetch_aqi_data (Response 200 (Some (JArr [JObj rec]))) (logger INFO RunStart s0) =
           (Inr True, t)"
    by (simp add: fetch_aqi_data_def Let_def t_def)
  have d: "data t = Some (JArr [JObj rec])"
    by (simp add: t_def logger_def)
  from a d obtain df' where
    df': "process_data L t = (Inr (Some df'), logger INFO (Processed 0) t)" "rows df' = []"
    using process_data_unresolved_single [of t rec name L] by blast
  have e: "empty_df df'"
    using df'(2) by (simp add: empty_df_def)
  have r: "run L (Response 200 (Some (JArr [JObj rec]))) E s0 =
           (Inr False, logger ERROR ProcessFailed (logger INFO (Processed 0) t))"
    by (simp add: run_def Let_def f df'(1) e)
  show "fst (run L (Response 200 (Some (JArr [JObj rec]))) E s0) = Inr False"
    by (simp add: r)
  show "aqi_map (snd (run L (Response 200 (Some (JArr [JObj rec]))) E s0)) = aqi_map s0"
    by (simp add: r t_def logger_def)
  show "html_file (snd (run L (Response 200 (Some (JArr [JObj rec]))) E s0)) = html_file s0"
    by (simp add: r t_def logger_def)
qed

theorem create_map_fails_iff_empty_witness:
  "(\<exists>df'. fst (process_data sample_libs (init_state\<lparr>data := Some (JArr [JObj record_unknown])\<rparr>)) =
            Inr (Some df') \<and> rows df' = [] \<and>
          fst (create_map df' init_state) = Inr None \<and>
          aqi_map (snd (create_map df' init_state)) = None) \<and>
   fst (run sample_libs (Response 200 (Some (JArr [JObj record_unknown]))) sample_env init_state) =
     Inr False \<and>
   html_file (snd (run sample_libs (Response 200 (Some (JArr [JObj record_unknown])))
                     sample_env init_state)) = None \<and>
   fst (create_map enriched_daan (init_state\<lparr>data := Some (JArr [JObj record_unknown])\<rparr>)) \<noteq>
     Inr None"
proof -
  have n: "map_of record_unknown ''sitename'' = Some (JStr name_unknown)"
    by (simp add: record_unknown_def)
  have d: "data (init_state\<lparr>data := Some (JArr [JObj record_unknown])\<rparr>) =
           Some (JArr [JObj record_unknown])"
    by simp
  have ne: "\<not> empty_df enriched_daan"
    by (simp add: empty_df_def enriched_daan_def)
  from create_map_fails_iff_empty
         [of enriched_daan "init_state\<lparr>data := Some (JArr [JObj record_unknown])\<rparr>"
             record_unknown name_unknown sample_libs init_state sample_env init_state]
    n d ne station_unknown
  show ?thesis
    by (simp add: init_state_def)
qed

text \<open>
  C8 (the code departs from the claim). The claim: in every run that reaches the persist
  stage, a failure in writing one artifact is reported and does not prevent the attempt
  to write the other. In \<^verbatim>\<open>save_map\<close> the call \<^verbatim>\<open>os.makedirs\<close> stands before the
  \<^verbatim>\<open>try\<close> block: when the output directory cannot be created, the error leaves
  \<^verbatim>\<open>save_map\<close> and \<open>run\<close>, no error line is logged for the map, and \<^verbatim>\<open>save_data\<close> is
  never called.
\<close>

theorem run_makedirs_failure_skips_csv:
  "fst (run sample_libs (Response 200 (Some (JArr [JObj record_daan])))
          (sample_env\<lparr>makedirs_html := Some OSError\<rparr>) init_state) = Inl OSError \<and>
   CsvWrite \<notin> set (events (snd (run sample_libs (Response 200 (Some (JArr [JObj record_daan])))
          (sample_env\<lparr>makedirs_html := Some OSError\<rparr>) init_state))) \<and>
   Logged ERROR MapSaveFailed \<notin>
     set (events (snd (run sample_libs (Response 200 (Some (JArr [JObj record_daan])))
          (sample_env\<lparr>makedirs_html := Some OSError\<rparr>) init_state))) \<and>
   csv_file (snd (run sample_libs (Response 200 (Some (JArr [JObj record_daan])))
          (sample_env\<lparr>makedirs_html := Some OSError\<rparr>) init_state)) = None"
  by code_simp

text \<open>
  C9. For every number the colour and the level name the same band: the colour is
  \<^verbatim>\<open>#00E400\<close> exactly when the level is Good, \<^verbatim>\<open>#FFFF00\<close> exactly when it is
  Moderate, \<^verbatim>\<open>#FF0000\<close> exactly when it is Unhealthy.
\<close>

theorem color_level_agree:
  "(get_aqi_color v = ''#00E400'' \<longleftrightarrow> get_aqi_level v = level_good) \<and>
   (get_aqi_color v = ''#FFFF00'' \<longleftrightarrow> get_aqi_level v = level_moderate) \<and>
   (get_aqi_color v = ''#FF0000'' \<longleftrightarrow> get_aqi_level v = level_unhealthy)"
  by (simp add: get_aqi_color_def get_aqi_level_def level_good_def level_moderate_def
      level_unhealthy_def)

theorem color_level_agree_witness:
  "get_aqi_color 75 = ''#FFFF00'' \<and> get_aqi_level 75 = level_moderate \<and>
   get_aqi_level 75 \<noteq> level_good \<and> get_aqi_level 75 \<noteq> level_unhealthy"
proof -
  have "get_aqi_color 75 = ''#FFFF00''"
    by (simp add: get_aqi_color_def)
  with color_level_agree [of 75] show ?thesis
    by (simp add: level_good_def level_moderate_def level_unhealthy_def)
qed

text \<open>
  C10. \<^verbatim>\<open>calculate_distance_to_taipei\<close> never raises, whatever its two arguments are
  and whatever the distance library does: it returns the library's distance in
  kilometres from the point to the fixed reference point \<open>taipei_station\<close>, rounded to
  two decimals, and \<^verbatim>\<open>None\<close> when the library raises.
\<close>

theorem calculate_distance_total:
  "(\<exists>r. calculate_distance_to_taipei L lat lon = Inr r) \<and>
   calculate_distance_to_taipei L lat lon =
     Inr (case geodesic_km L (lat, lon) taipei_station of
            Inl e \<Rightarrow> None
          | Inr d \<Rightarrow> Some (round2 L d)) \<and>
   taipei_station = (25.0478, 121.5170)"
  by (simp add: calculate_distance_to_taipei_def try_except_def bind_err_def taipei_station_def
      split: sum.splits)

theorem calculate_distance_total_witness:
  "calculate_distance_to_taipei sample_libs (Py (JNum 25.0263)) (Py (JNum 121.5438)) =
     Inr (Some 5.36) \<and>
   calculate_distance_to_taipei sample_libs (Py (JNum 125)) (Py (JNum 121.5438)) = Inr None \<and>
   calculate_distance_to_taipei sample_libs NaN NaN = Inr None"
proof -
  have g1: "geodesic_km sample_libs (Py (JNum 25.0263), Py (JNum 121.5438)) taipei_station =
            Inr 5.3613"
    by (simp add: sample_libs_def taipei_station_def)
  have r1: "round2 sample_libs 5.3613 = 5.36"
    by (simp add: sample_libs_def round_def)
  have g2: "geodesic_km sample_libs (Py (JNum 125), Py (JNum 121.5438)) taipei_station =
            Inl ValueError"
    by (simp add: sample_libs_def)
  have g3: "geodesic_km sample_libs (NaN, NaN) taipei_station = Inl TypeError"
    by (simp add: sample_libs_def)
  have a: "calculate_distance_to_taipei sample_libs (Py (JNum 25.0263)) (Py (JNum 121.5438)) =
           Inr (Some 5.36)"
    by (simp only: calculate_distance_total [of sample_libs "Py (JNum 25.0263)"
          "Py (JNum 121.5438)", THEN conjunct2, THEN conjunct1] g1 r1 sum.case)
  have b: "calculate_distance_to_taipei sample_libs (Py (JNum 125)) (Py (JNum 121.5438)) =
           Inr None"
    by (simp only: calculate_distance_total [of sample_libs "Py (JNum 125)"
          "Py (JNum 121.5438)", THEN conjunct2, THEN conjunct1] g2 sum.case)
  have c: "calculate_distance_to_taipei sample_libs NaN NaN = Inr None"
    by (simp only: calculate_distance_total [of sample_libs NaN NaN,
          THEN conjunct2, THEN conjunct1] g3 sum.case)
  from a b c show ?thesis
    by (intro conjI)
qed

end
